theory Spec2Isabelle
  imports Main
begin

section \<open>Data model (package models)\<close>

text \<open>
  \<^verbatim>\<open>type ItemType string\<close> with the two recognised values \<^verbatim>\<open>"post"\<close> and
  \<^verbatim>\<open>"codefile"\<close>; any other string is an invalid item type.
\<close>

type_synonym ItemType = string

definition ItemTypePost :: ItemType where
  "ItemTypePost = ''post''"

definition ItemTypeCodeFile :: ItemType where
  "ItemTypeCodeFile = ''codefile''"

definition IsValid :: "ItemType \<Rightarrow> bool" where
  "IsValid it = (it = ItemTypePost \<or> it = ItemTypeCodeFile)"

text \<open>\<^verbatim>\<open>type HistoryAction string\<close>; a stored entry may carry any string.\<close>

datatype HistoryAction =
  ActionCreate | ActionDelete | ActionPatch | ActionSnapshot | ActionRevert
  | ActionOther string

text \<open>Timestamps are readings of the clock, abstracted to natural numbers.\<close>

record User =
  u_ID :: string
  u_Username :: string
  u_PasswordHash :: string
  u_CreatedAt :: nat

record Post =
  p_ID :: string
  p_UserID :: string
  p_Title :: string
  p_Slug :: string
  p_CreatedAt :: nat
  p_UpdatedAt :: nat
  p_S3Path :: string
  p_Version :: int

record CodeFile =
  cf_ID :: string
  cf_UserID :: string
  cf_FileName :: string
  cf_Language :: string
  cf_CreatedAt :: nat
  cf_UpdatedAt :: nat
  cf_S3Path :: string
  cf_Version :: int

record Change =
  c_Line :: int
  c_Column :: int
  c_Text :: string
  c_Removed :: int

record HistoryLog =
  hl_ID :: string
  hl_UserID :: string
  hl_ItemID :: string
  hl_ItemType :: string
  hl_Action :: HistoryAction
  hl_Timestamp :: nat
  hl_ChangeData :: "Change option"
  hl_S3PathBefore :: string
  hl_S3PathAfter :: string
  hl_ItemVersion :: int
  hl_RevertedToLogID :: "string option"

text \<open>
  The metadata value travels as \<^verbatim>\<open>interface{}\<close> holding a \<^verbatim>\<open>*models.Post\<close> or a
  \<^verbatim>\<open>*models.CodeFile\<close>.
\<close>

datatype Meta = PostMeta Post | CodeFileMeta CodeFile

section \<open>Errors\<close>

text \<open>Sentinel errors of the packages database, cache and storage.\<close>

datatype db_error = DbErrNotFound | DbErrDuplicateUser | DbErrVersionMismatch | DbErrOther

datatype cache_error = CacheErrNotFound | CacheErrOther

datatype storage_error = ErrFileNotFound | StorageErrOther

text \<open>
  Errors of package service. \<open>ErrOther\<close> stands for the anonymous errors built with
  \<^verbatim>\<open>errors.New\<close> or \<^verbatim>\<open>fmt.Errorf\<close> at the place of return, \<open>ErrPanic\<close> for a failed type
  assertion \<^verbatim>\<open>meta.(*models.Post)\<close>.
\<close>

datatype error =
  ErrInvalidCredentials | ErrUsernameTaken | ErrItemNotFound | ErrPermissionDenied
  | ErrInvalidItemType | ErrVersionConflict | ErrApplyChange | ErrRevertNotAllowed
  | ErrHistoryLogNotFound | ErrInconsistentState | ErrOther string | ErrPanic

section \<open>The stores and the calls made to them\<close>

text \<open>Every call that leaves the service (cache, database, storage) is recorded, in order,
  together with whether it returned without an error.\<close>

datatype call =
  CacheGetUser string
  | CacheSetUser User
  | CacheGetItemMeta string ItemType
  | CacheSetItemMeta string ItemType Meta
  | CacheDeleteItemMeta string ItemType
  | CacheGetItemContent string ItemType int
  | CacheSetItemContent string ItemType int string
  | CacheInvalidateItemContent string ItemType
  | DbGetUserByUsername string
  | DbCreateUser User
  | DbGetPostMetaByID string
  | DbGetCodeFileMetaByID string
  | DbUpdatePostMeta Post
  | DbUpdateCodeFileMeta CodeFile
  | DbDeletePostMeta string
  | DbDeleteCodeFileMeta string
  | DbLogAction HistoryLog
  | DbGetActionHistory string string int
  | DbGetHistoryLogByID string
  | StorageUploadFile string string string
  | StorageDownloadFile string
  | StorageDeleteFile string

text \<open>
  The state a service call runs against: the metadata store (users, posts, code files,
  history), the blob store, the cache, the in-memory snapshot counters of the service, and
  the record of external calls.
\<close>

record state =
  users :: "string \<rightharpoonup> User"
  posts :: "string \<rightharpoonup> Post"
  codefiles :: "string \<rightharpoonup> CodeFile"
  history :: "HistoryLog list"
  files :: "string \<rightharpoonup> string"
  userCache :: "string \<rightharpoonup> User"
  postCache :: "string \<rightharpoonup> Post"
  codefileCache :: "string \<rightharpoonup> CodeFile"
  contentCache :: "(ItemType \<times> string \<times> int) \<rightharpoonup> string"
  changeCounters :: "string \<rightharpoonup> int"
  calls :: "(call \<times> bool) list"

text \<open>
  What a call of the service depends on besides its arguments and the stores:
  the clock, the configuration, the identifier the database generates for the n-th history
  entry, the helper functions of the repository whose bodies are not in the sources
  (\<^verbatim>\<open>applyChanges\<close>, \<^verbatim>\<open>generateS3Path\<close>, the bcrypt and JWT calls), and, for every place
  where the service calls a store, whether that call fails with an infrastructure error.
\<close>

record env =
  now :: nat
  IntervalChanges :: int
  newLogID :: "nat \<Rightarrow> string"
  applyChanges :: "string \<Rightarrow> Change list \<Rightarrow> string option"
  generateS3Path :: "string \<Rightarrow> string \<Rightarrow> ItemType \<Rightarrow> string"
  GenerateFromPassword :: "string \<Rightarrow> string option"
  CompareHashAndPassword :: "string \<Rightarrow> string \<Rightarrow> bool"
  GenerateJWT :: "string \<Rightarrow> string option"
  f_cacheGetUser :: bool
  f_cacheSetUser :: bool
  f_cacheGetItemMeta :: bool
  f_cacheSetItemMeta :: bool
  f_cacheDeleteItemMeta :: bool
  f_cacheGetItemContent :: bool
  f_cacheSetItemContent :: bool
  f_cacheInvalidateItemContent :: bool
  f_dbGetUser :: bool
  f_dbCreateUser :: bool
  f_dbGetMeta :: bool
  f_dbUpdateMeta :: bool
  f_dbDeleteMeta :: bool
  f_dbGetVersion :: bool
  f_dbLogPatch :: "nat \<Rightarrow> bool"
  f_dbLogAction :: bool
  f_dbGetActionHistory :: bool
  f_dbGetHistoryLog :: bool
  f_upload :: bool
  f_download :: bool
  f_readAll :: bool
  f_deleteFile :: bool

definition record_call :: "call \<Rightarrow> bool \<Rightarrow> state \<Rightarrow> state" where
  "record_call c ok s = s\<lparr>calls := calls s @ [(c, ok)]\<rparr>"

subsection \<open>Cache (cache.Cache as implemented by RedisCache)\<close>

text \<open>
  RedisCache stores the JSON encoding of a value. The fields tagged \<^verbatim>\<open>json:"-"\<close> are
  left out by \<^verbatim>\<open>json.Marshal\<close> and come back as zero values: \<^verbatim>\<open>S3Path\<close> and \<^verbatim>\<open>Version\<close>
  of a post or code file, \<^verbatim>\<open>PasswordHash\<close> of a user.
\<close>

definition jsonPost :: "Post \<Rightarrow> Post" where
  "jsonPost p = p\<lparr>p_S3Path := [], p_Version := 0\<rparr>"

definition jsonCodeFile :: "CodeFile \<Rightarrow> CodeFile" where
  "jsonCodeFile f = f\<lparr>cf_S3Path := [], cf_Version := 0\<rparr>"

definition jsonUser :: "User \<Rightarrow> User" where
  "jsonUser u = u\<lparr>u_PasswordHash := []\<rparr>"

definition cacheGetUser :: "env \<Rightarrow> string \<Rightarrow> state \<Rightarrow> (cache_error + User) \<times> state" where
  "cacheGetUser e userID s =
    (if f_cacheGetUser e then (Inl CacheErrOther, record_call (CacheGetUser userID) False s)
     else case userCache s userID of
       None \<Rightarrow> (Inl CacheErrNotFound, record_call (CacheGetUser userID) False s)
     | Some u \<Rightarrow> (Inr u, record_call (CacheGetUser userID) True s))"

definition cacheSetUser :: "env \<Rightarrow> User \<Rightarrow> state \<Rightarrow> cache_error option \<times> state" where
  "cacheSetUser e user s =
    (if f_cacheSetUser e then (Some CacheErrOther, record_call (CacheSetUser user) False s)
     else (None, record_call (CacheSetUser user) True
             (s\<lparr>userCache := (userCache s)(u_ID user \<mapsto> jsonUser user)\<rparr>)))"

definition cacheGetItemMeta ::
  "env \<Rightarrow> string \<Rightarrow> ItemType \<Rightarrow> state \<Rightarrow> (cache_error + Meta) \<times> state" where
  "cacheGetItemMeta e itemID itemType s =
    (if f_cacheGetItemMeta e
     then (Inl CacheErrOther, record_call (CacheGetItemMeta itemID itemType) False s)
     else if itemType = ItemTypePost then
       (case postCache s itemID of
          None \<Rightarrow> (Inl CacheErrNotFound, record_call (CacheGetItemMeta itemID itemType) False s)
        | Some p \<Rightarrow> (Inr (PostMeta p), record_call (CacheGetItemMeta itemID itemType) True s))
     else if itemType = ItemTypeCodeFile then
       (case codefileCache s itemID of
          None \<Rightarrow> (Inl CacheErrNotFound, record_call (CacheGetItemMeta itemID itemType) False s)
        | Some f \<Rightarrow> (Inr (CodeFileMeta f), record_call (CacheGetItemMeta itemID itemType) True s))
     else (Inl CacheErrNotFound, record_call (CacheGetItemMeta itemID itemType) False s))"

definition cacheSetItemMeta ::
  "env \<Rightarrow> string \<Rightarrow> ItemType \<Rightarrow> Meta \<Rightarrow> state \<Rightarrow> cache_error option \<times> state" where
  "cacheSetItemMeta e itemID itemType meta s =
    (if itemType = ItemTypePost then
       (case meta of
          PostMeta p \<Rightarrow>
            (if f_cacheSetItemMeta e
             then (Some CacheErrOther, record_call (CacheSetItemMeta itemID itemType meta) False s)
             else (None, record_call (CacheSetItemMeta itemID itemType meta) True
                     (s\<lparr>postCache := (postCache s)(itemID \<mapsto> jsonPost p)\<rparr>)))
        | CodeFileMeta f \<Rightarrow>
            (Some CacheErrOther, record_call (CacheSetItemMeta itemID itemType meta) False s))
     else if itemType = ItemTypeCodeFile then
       (case meta of
          CodeFileMeta f \<Rightarrow>
            (if f_cacheSetItemMeta e
             then (Some CacheErrOther, record_call (CacheSetItemMeta itemID itemType meta) False s)
             else (None, record_call (CacheSetItemMeta itemID itemType meta) True
                     (s\<lparr>codefileCache := (codefileCache s)(itemID \<mapsto> jsonCodeFile f)\<rparr>)))
        | PostMeta p \<Rightarrow>
            (Some CacheErrOther, record_call (CacheSetItemMeta itemID itemType meta) False s))
     else (Some CacheErrOther, record_call (CacheSetItemMeta itemID itemType meta) False s))"

definition cacheDeleteItemMeta ::
  "env \<Rightarrow> string \<Rightarrow> ItemType \<Rightarrow> state \<Rightarrow> cache_error option \<times> state" where
  "cacheDeleteItemMeta e itemID itemType s =
    (if f_cacheDeleteItemMeta e
     then (Some CacheErrOther, record_call (CacheDeleteItemMeta itemID itemType) False s)
     else if itemType = ItemTypePost then
       (None, record_call (CacheDeleteItemMeta itemID itemType) True
                (s\<lparr>postCache := (postCache s)(itemID := None)\<rparr>))
     else if itemType = ItemTypeCodeFile then
       (None, record_call (CacheDeleteItemMeta itemID itemType) True
                (s\<lparr>codefileCache := (codefileCache s)(itemID := None)\<rparr>))
     else (None, record_call (CacheDeleteItemMeta itemID itemType) True s))"

definition cacheGetItemContent ::
  "env \<Rightarrow> string \<Rightarrow> ItemType \<Rightarrow> int \<Rightarrow> state \<Rightarrow> (cache_error + string) \<times> state" where
  "cacheGetItemContent e itemID itemType version s =
    (if f_cacheGetItemContent e
     then (Inl CacheErrOther, record_call (CacheGetItemContent itemID itemType version) False s)
     else case contentCache s (itemType, itemID, version) of
       None \<Rightarrow>
         (Inl CacheErrNotFound, record_call (CacheGetItemContent itemID itemType version) False s)
     | Some c \<Rightarrow> (Inr c, record_call (CacheGetItemContent itemID itemType version) True s))"

definition cacheSetItemContent ::
  "env \<Rightarrow> string \<Rightarrow> ItemType \<Rightarrow> int \<Rightarrow> string \<Rightarrow> state \<Rightarrow> cache_error option \<times> state" where
  "cacheSetItemContent e itemID itemType version content s =
    (if f_cacheSetItemContent e
     then (Some CacheErrOther,
           record_call (CacheSetItemContent itemID itemType version content) False s)
     else (None, record_call (CacheSetItemContent itemID itemType version content) True
             (s\<lparr>contentCache := (contentCache s)((itemType, itemID, version) \<mapsto> content)\<rparr>)))"

definition cacheInvalidateItemContent ::
  "env \<Rightarrow> string \<Rightarrow> ItemType \<Rightarrow> state \<Rightarrow> cache_error option \<times> state" where
  "cacheInvalidateItemContent e itemID itemType s =
    (if f_cacheInvalidateItemContent e
     then (Some CacheErrOther, record_call (CacheInvalidateItemContent itemID itemType) False s)
     else (None, record_call (CacheInvalidateItemContent itemID itemType) True
             (s\<lparr>contentCache :=
                  (\<lambda>k. if fst k = itemType \<and> fst (snd k) = itemID then None
                       else contentCache s k)\<rparr>)))"

subsection \<open>Metadata store (database.DBAdapter)\<close>

text \<open>
  The three adapters (MongoDB, DynamoDB, Firestore) agree on what the service relies on:
  a lookup answers \<^verbatim>\<open>ErrNotFound\<close> for an absent key and sets the \<^verbatim>\<open>ID\<close> field of
  what it returns to the key it was asked for; an update is a compare-and-set on
  \<^verbatim>\<open>version\<close> that writes the type-specific fields, \<^verbatim>\<open>updatedAt\<close> and \<^verbatim>\<open>s3Path\<close>,
  increments the stored version, and answers \<^verbatim>\<open>ErrNotFound\<close> or \<^verbatim>\<open>ErrVersionMismatch\<close>
  when it does not apply.
\<close>

definition dbGetUserByUsername :: "env \<Rightarrow> string \<Rightarrow> state \<Rightarrow> (db_error + User) \<times> state" where
  "dbGetUserByUsername e username s =
    (if f_dbGetUser e then (Inl DbErrOther, record_call (DbGetUserByUsername username) False s)
     else case users s username of
       None \<Rightarrow> (Inl DbErrNotFound, record_call (DbGetUserByUsername username) False s)
     | Some u \<Rightarrow>
         (Inr (u\<lparr>u_ID := username\<rparr>), record_call (DbGetUserByUsername username) True s))"

definition dbCreateUser :: "env \<Rightarrow> User \<Rightarrow> state \<Rightarrow> db_error option \<times> state" where
  "dbCreateUser e user s =
    (if f_dbCreateUser e then (Some DbErrOther, record_call (DbCreateUser user) False s)
     else case users s (u_Username user) of
       Some u \<Rightarrow> (Some DbErrDuplicateUser, record_call (DbCreateUser user) False s)
     | None \<Rightarrow> (None, record_call (DbCreateUser user) True
                 (s\<lparr>users := (users s)(u_Username user \<mapsto> user)\<rparr>)))"

definition dbGetPostMetaByID :: "bool \<Rightarrow> string \<Rightarrow> state \<Rightarrow> (db_error + Post) \<times> state" where
  "dbGetPostMetaByID fails postID s =
    (if fails then (Inl DbErrOther, record_call (DbGetPostMetaByID postID) False s)
     else case posts s postID of
       None \<Rightarrow> (Inl DbErrNotFound, record_call (DbGetPostMetaByID postID) False s)
     | Some p \<Rightarrow>
         (Inr (p\<lparr>p_ID := postID\<rparr>), record_call (DbGetPostMetaByID postID) True s))"

definition dbGetCodeFileMetaByID ::
  "bool \<Rightarrow> string \<Rightarrow> state \<Rightarrow> (db_error + CodeFile) \<times> state" where
  "dbGetCodeFileMetaByID fails fileID s =
    (if fails then (Inl DbErrOther, record_call (DbGetCodeFileMetaByID fileID) False s)
     else case codefiles s fileID of
       None \<Rightarrow> (Inl DbErrNotFound, record_call (DbGetCodeFileMetaByID fileID) False s)
     | Some f \<Rightarrow>
         (Inr (f\<lparr>cf_ID := fileID\<rparr>), record_call (DbGetCodeFileMetaByID fileID) True s))"

definition dbUpdatePostMeta :: "env \<Rightarrow> Post \<Rightarrow> state \<Rightarrow> db_error option \<times> state" where
  "dbUpdatePostMeta e post s =
    (if f_dbUpdateMeta e then (Some DbErrOther, record_call (DbUpdatePostMeta post) False s)
     else case posts s (p_ID post) of
       None \<Rightarrow> (Some DbErrNotFound, record_call (DbUpdatePostMeta post) False s)
     | Some existing \<Rightarrow>
         (if p_Version existing \<noteq> p_Version post
          then (Some DbErrVersionMismatch, record_call (DbUpdatePostMeta post) False s)
          else (None, record_call (DbUpdatePostMeta post) True
                  (s\<lparr>posts := (posts s)(p_ID post \<mapsto>
                       existing\<lparr>p_Title := p_Title post, p_Slug := p_Slug post,
                                 p_UpdatedAt := now e, p_S3Path := p_S3Path post,
                                 p_Version := p_Version existing + 1\<rparr>)\<rparr>))))"

definition dbUpdateCodeFileMeta :: "env \<Rightarrow> CodeFile \<Rightarrow> state \<Rightarrow> db_error option \<times> state" where
  "dbUpdateCodeFileMeta e file s =
    (if f_dbUpdateMeta e then (Some DbErrOther, record_call (DbUpdateCodeFileMeta file) False s)
     else case codefiles s (cf_ID file) of
       None \<Rightarrow> (Some DbErrNotFound, record_call (DbUpdateCodeFileMeta file) False s)
     | Some existing \<Rightarrow>
         (if cf_Version existing \<noteq> cf_Version file
          then (Some DbErrVersionMismatch, record_call (DbUpdateCodeFileMeta file) False s)
          else (None, record_call (DbUpdateCodeFileMeta file) True
                  (s\<lparr>codefiles := (codefiles s)(cf_ID file \<mapsto>
                       existing\<lparr>cf_FileName := cf_FileName file,
                                 cf_Language := cf_Language file,
                                 cf_UpdatedAt := now e, cf_S3Path := cf_S3Path file,
                                 cf_Version := cf_Version existing + 1\<rparr>)\<rparr>))))"

text \<open>Deleting an absent document: \<^verbatim>\<open>ErrNotFound\<close> (MongoDB; the other two answer nil).
  The service does not look at the difference.\<close>

definition dbDeletePostMeta :: "env \<Rightarrow> string \<Rightarrow> state \<Rightarrow> db_error option \<times> state" where
  "dbDeletePostMeta e postID s =
    (if f_dbDeleteMeta e then (Some DbErrOther, record_call (DbDeletePostMeta postID) False s)
     else case posts s postID of
       None \<Rightarrow> (Some DbErrNotFound, record_call (DbDeletePostMeta postID) False s)
     | Some p \<Rightarrow> (None, record_call (DbDeletePostMeta postID) True
                   (s\<lparr>posts := (posts s)(postID := None)\<rparr>)))"

definition dbDeleteCodeFileMeta :: "env \<Rightarrow> string \<Rightarrow> state \<Rightarrow> db_error option \<times> state" where
  "dbDeleteCodeFileMeta e fileID s =
    (if f_dbDeleteMeta e
     then (Some DbErrOther, record_call (DbDeleteCodeFileMeta fileID) False s)
     else case codefiles s fileID of
       None \<Rightarrow> (Some DbErrNotFound, record_call (DbDeleteCodeFileMeta fileID) False s)
     | Some f \<Rightarrow> (None, record_call (DbDeleteCodeFileMeta fileID) True
                   (s\<lparr>codefiles := (codefiles s)(fileID := None)\<rparr>)))"

text \<open>
  \<^verbatim>\<open>LogAction\<close> generates the identifier of the entry, fills a zero timestamp, and
  appends. The recorded call carries the entry as the service passed it.
\<close>

definition dbLogAction :: "env \<Rightarrow> bool \<Rightarrow> HistoryLog \<Rightarrow> state \<Rightarrow> (db_error + string) \<times> state" where
  "dbLogAction e fails logEntry s =
    (if fails then (Inl DbErrOther, record_call (DbLogAction logEntry) False s)
     else
       (let newID = newLogID e (length (history s));
            stored = logEntry\<lparr>hl_ID := newID,
                       hl_Timestamp := (if hl_Timestamp logEntry = 0 then now e
                                        else hl_Timestamp logEntry)\<rparr>
        in (Inr newID, record_call (DbLogAction logEntry) True
                         (s\<lparr>history := history s @ [stored]\<rparr>))))"

definition dbGetActionHistory ::
  "env \<Rightarrow> string \<Rightarrow> string \<Rightarrow> int \<Rightarrow> state \<Rightarrow> (db_error + HistoryLog list) \<times> state" where
  "dbGetActionHistory e itemID itemType limit s =
    (if f_dbGetActionHistory e
     then (Inl DbErrOther, record_call (DbGetActionHistory itemID itemType limit) False s)
     else
       (let newestFirst =
              rev (filter (\<lambda>l. hl_ItemID l = itemID \<and> hl_ItemType l = itemType) (history s))
        in (Inr (if 0 < limit then take (nat limit) newestFirst else newestFirst),
            record_call (DbGetActionHistory itemID itemType limit) True s)))"

definition dbGetHistoryLogByID ::
  "env \<Rightarrow> string \<Rightarrow> state \<Rightarrow> (db_error + HistoryLog) \<times> state" where
  "dbGetHistoryLogByID e logID s =
    (if f_dbGetHistoryLog e
     then (Inl DbErrOther, record_call (DbGetHistoryLogByID logID) False s)
     else case find (\<lambda>l. hl_ID l = logID) (history s) of
       None \<Rightarrow> (Inl DbErrNotFound, record_call (DbGetHistoryLogByID logID) False s)
     | Some l \<Rightarrow>
         (Inr (l\<lparr>hl_ID := logID\<rparr>), record_call (DbGetHistoryLogByID logID) True s))"

subsection \<open>Blob store (storage.StorageAdapter)\<close>

definition storageUploadFile ::
  "env \<Rightarrow> string \<Rightarrow> string \<Rightarrow> string \<Rightarrow> state \<Rightarrow> storage_error option \<times> state" where
  "storageUploadFile e key body contentType s =
    (if f_upload e
     then (Some StorageErrOther, record_call (StorageUploadFile key body contentType) False s)
     else (None, record_call (StorageUploadFile key body contentType) True
             (s\<lparr>files := (files s)(key \<mapsto> body)\<rparr>)))"

text \<open>\<^verbatim>\<open>DownloadFile\<close> followed by \<^verbatim>\<open>io.ReadAll\<close> of the returned reader; the two can fail
  separately, and the service tells a missing file from the other errors.\<close>

definition storageDownloadFile ::
  "env \<Rightarrow> string \<Rightarrow> state \<Rightarrow> (storage_error + string) \<times> state" where
  "storageDownloadFile e key s =
    (if f_download e then (Inl StorageErrOther, record_call (StorageDownloadFile key) False s)
     else case files s key of
       None \<Rightarrow> (Inl ErrFileNotFound, record_call (StorageDownloadFile key) False s)
     | Some c \<Rightarrow> (Inr c, record_call (StorageDownloadFile key) True s))"

definition storageDeleteFile :: "env \<Rightarrow> string \<Rightarrow> state \<Rightarrow> storage_error option \<times> state" where
  "storageDeleteFile e key s =
    (if f_deleteFile e then (Some StorageErrOther, record_call (StorageDeleteFile key) False s)
     else (None, record_call (StorageDeleteFile key) True
             (s\<lparr>files := (files s)(key := None)\<rparr>)))"

section \<open>Service layer (package service)\<close>

subsection \<open>Helpers\<close>

text \<open>
  Modelled from the spec: \<^verbatim>\<open>mapDBError\<close> is called by \<^verbatim>\<open>getItemMetaWithCache\<close> but its
  body is not in the sources. The call site says that it "handles ErrNotFound", the callers
  test the result against \<^verbatim>\<open>ErrItemNotFound\<close>, and the spec lists \<^verbatim>\<open>NOT_FOUND\<close> as the
  caller-visible outcome of a store miss; every other database error stays an internal error.
\<close>

definition mapDBError :: "db_error \<Rightarrow> ItemType \<Rightarrow> string \<Rightarrow> error" where
  "mapDBError dbErr itemType itemID =
    (case dbErr of
       DbErrNotFound \<Rightarrow> ErrItemNotFound
     | _ \<Rightarrow> ErrOther ''database error'')"

text \<open>
  Modelled from the spec: \<^verbatim>\<open>getItemVersion\<close> is called by \<^verbatim>\<open>ApplyItemChanges\<close> after a
  version mismatch but its body is not in the sources. The spec has \<^verbatim>\<open>VersionConflict\<close>
  return "the true current version", so it is a read of the version field from the metadata
  store, not from the cache.
\<close>

definition getItemVersion :: "env \<Rightarrow> string \<Rightarrow> ItemType \<Rightarrow> state \<Rightarrow> (error + int) \<times> state" where
  "getItemVersion e itemID itemType s =
    (if itemType = ItemTypePost then
       (case dbGetPostMetaByID (f_dbGetVersion e) itemID s of
          (Inl dbErr, s1) \<Rightarrow> (Inl (mapDBError dbErr itemType itemID), s1)
        | (Inr p, s1) \<Rightarrow> (Inr (p_Version p), s1))
     else if itemType = ItemTypeCodeFile then
       (case dbGetCodeFileMetaByID (f_dbGetVersion e) itemID s of
          (Inl dbErr, s1) \<Rightarrow> (Inl (mapDBError dbErr itemType itemID), s1)
        | (Inr f, s1) \<Rightarrow> (Inr (cf_Version f), s1))
     else (Inl ErrInvalidItemType, s))"

subsection \<open>getItemMetaWithCache\<close>

definition getItemMetaWithCache ::
  "env \<Rightarrow> string \<Rightarrow> ItemType \<Rightarrow> state \<Rightarrow> (error + Meta) \<times> state" where
  "getItemMetaWithCache e itemID itemType s =
    (case cacheGetItemMeta e itemID itemType s of
       (Inr cachedMeta, s1) \<Rightarrow> (Inr cachedMeta, s1)
     | (Inl cacheErr, s1) \<Rightarrow>
         (if itemType = ItemTypePost then
            (case dbGetPostMetaByID (f_dbGetMeta e) itemID s1 of
               (Inl dbErr, s2) \<Rightarrow> (Inl (mapDBError dbErr itemType itemID), s2)
             | (Inr p, s2) \<Rightarrow>
                 (Inr (PostMeta p), snd (cacheSetItemMeta e itemID itemType (PostMeta p) s2)))
          else if itemType = ItemTypeCodeFile then
            (case dbGetCodeFileMetaByID (f_dbGetMeta e) itemID s1 of
               (Inl dbErr, s2) \<Rightarrow> (Inl (mapDBError dbErr itemType itemID), s2)
             | (Inr f, s2) \<Rightarrow>
                 (Inr (CodeFileMeta f),
                  snd (cacheSetItemMeta e itemID itemType (CodeFileMeta f) s2)))
          else (Inl ErrInvalidItemType, s1)))"

subsection \<open>getItemContentFromSource\<close>

definition getItemContentFromSource ::
  "env \<Rightarrow> string \<Rightarrow> ItemType \<Rightarrow> int \<Rightarrow> string \<Rightarrow> state \<Rightarrow> (error + string) \<times> state" where
  "getItemContentFromSource e itemID itemType version s3Path s =
    (case cacheGetItemContent e itemID itemType version s of
       (Inr cachedContent, s1) \<Rightarrow> (Inr cachedContent, s1)
     | (Inl cacheErr, s1) \<Rightarrow>
         (if s3Path = [] then (Inr [], s1)
          else
            (case storageDownloadFile e s3Path s1 of
               (Inl ErrFileNotFound, s2) \<Rightarrow> (Inr [], s2)
             | (Inl StorageErrOther, s2) \<Rightarrow> (Inl (ErrOther ''s3 download error''), s2)
             | (Inr contentBytes, s2) \<Rightarrow>
                 (if f_readAll e then (Inl (ErrOther ''s3 read error''), s2)
                  else (Inr contentBytes, s2)))))"

subsection \<open>handleSnapshotting\<close>

definition counterKey :: "ItemType \<Rightarrow> string \<Rightarrow> string" where
  "counterKey itemType itemID = itemType @ '':'' @ itemID"

definition snapshotLog :: "env \<Rightarrow> string \<Rightarrow> string \<Rightarrow> string \<Rightarrow> int \<Rightarrow> string \<Rightarrow> HistoryLog" where
  "snapshotLog e userID itemID itemTypeStr currentVersion currentS3Path =
    \<lparr>hl_ID = [], hl_UserID = userID, hl_ItemID = itemID, hl_ItemType = itemTypeStr,
     hl_Action = ActionSnapshot, hl_Timestamp = now e, hl_ChangeData = None,
     hl_S3PathBefore = [], hl_S3PathAfter = currentS3Path,
     hl_ItemVersion = currentVersion, hl_RevertedToLogID = None\<rparr>"

text \<open>Reading a Go map at a missing key gives the zero value.\<close>

definition counterOf :: "state \<Rightarrow> string \<Rightarrow> int" where
  "counterOf s k = (case changeCounters s k of None \<Rightarrow> 0 | Some c \<Rightarrow> c)"

definition handleSnapshotting ::
  "env \<Rightarrow> string \<Rightarrow> string \<Rightarrow> ItemType \<Rightarrow> string \<Rightarrow> int \<Rightarrow> string \<Rightarrow> int \<Rightarrow> state \<Rightarrow> state" where
  "handleSnapshotting e userID itemID itemType itemTypeStr currentVersion currentS3Path
      numChangesApplied s =
    (let interval = IntervalChanges e in
     if interval \<le> 0 then s
     else
       (let k = counterKey itemType itemID;
            count = counterOf s k + numChangesApplied
        in if count \<ge> interval then
             snd (dbLogAction e (f_dbLogAction e)
                    (snapshotLog e userID itemID itemTypeStr currentVersion currentS3Path)
                    (s\<lparr>changeCounters := (changeCounters s)(k \<mapsto> 0)\<rparr>))
           else s\<lparr>changeCounters := (changeCounters s)(k \<mapsto> count)\<rparr>))"

subsection \<open>ApplyItemChanges\<close>

text \<open>The Go triple \<^verbatim>\<open>(newVersion, appliedChanges, err)\<close>: an error together with the
  version returned beside it, or the new version with the applied changes.\<close>

type_synonym apply_result = "(error \<times> int) + (int \<times> Change list)"

text \<open>The \<^verbatim>\<open>switch itemType\<close> of step 1 and the ownership check that follows it.\<close>

definition validateForApply ::
  "ItemType \<Rightarrow> Meta \<Rightarrow> string \<Rightarrow> int \<Rightarrow> (error \<times> int) + (string \<times> int \<times> string)" where
  "validateForApply itemType meta userID baseVersion =
    (case
       (if itemType = ItemTypePost then
          (case meta of
             PostMeta postMeta \<Rightarrow>
               (if p_UserID postMeta \<noteq> userID then Inl (ErrPermissionDenied, 0)
                else if p_Version postMeta \<noteq> baseVersion
                then Inl (ErrVersionConflict, p_Version postMeta)
                else Inr (p_S3Path postMeta, p_UserID postMeta, p_Version postMeta,
                          ''text/markdown''))
           | CodeFileMeta f \<Rightarrow> Inl (ErrPanic, 0))
        else if itemType = ItemTypeCodeFile then
          (case meta of
             CodeFileMeta fileMeta \<Rightarrow>
               (if cf_UserID fileMeta \<noteq> userID then Inl (ErrPermissionDenied, 0)
                else if cf_Version fileMeta \<noteq> baseVersion
                then Inl (ErrVersionConflict, cf_Version fileMeta)
                else Inr (cf_S3Path fileMeta, cf_UserID fileMeta, cf_Version fileMeta,
                          ''text/plain''))
           | PostMeta p \<Rightarrow> Inl (ErrPanic, 0))
        else Inr ([], [], 0, []))
     of
       Inl r \<Rightarrow> Inl r
     | Inr (s3Path, ownerUserID, currentVersion, contentType) \<Rightarrow>
         (if ownerUserID \<noteq> userID then Inl (ErrPermissionDenied, 0)
          else Inr (s3Path, currentVersion, contentType)))"

text \<open>Step 6: the metadata update with the expected version and the (possibly generated)
  path.\<close>

definition updateItemMeta ::
  "env \<Rightarrow> ItemType \<Rightarrow> Meta \<Rightarrow> int \<Rightarrow> string \<Rightarrow> state \<Rightarrow> (error + db_error option) \<times> state" where
  "updateItemMeta e itemType meta currentVersion s3Path s =
    (if itemType = ItemTypePost then
       (case meta of
          PostMeta postMeta \<Rightarrow>
            (case dbUpdatePostMeta e
                    (postMeta\<lparr>p_UpdatedAt := now e, p_Version := currentVersion,
                              p_S3Path := s3Path\<rparr>) s of
               (dbUpdateErr, s1) \<Rightarrow> (Inr dbUpdateErr, s1))
        | CodeFileMeta f \<Rightarrow> (Inl ErrPanic, s))
     else if itemType = ItemTypeCodeFile then
       (case meta of
          CodeFileMeta fileMeta \<Rightarrow>
            (case dbUpdateCodeFileMeta e
                    (fileMeta\<lparr>cf_UpdatedAt := now e, cf_Version := currentVersion,
                              cf_S3Path := s3Path\<rparr>) s of
               (dbUpdateErr, s1) \<Rightarrow> (Inr dbUpdateErr, s1))
        | PostMeta p \<Rightarrow> (Inl ErrPanic, s))
     else (Inr None, s))"

definition patchLog :: "env \<Rightarrow> string \<Rightarrow> string \<Rightarrow> string \<Rightarrow> int \<Rightarrow> Change \<Rightarrow> HistoryLog" where
  "patchLog e userID itemID itemTypeStr expectedNewVersion change =
    \<lparr>hl_ID = [], hl_UserID = userID, hl_ItemID = itemID, hl_ItemType = itemTypeStr,
     hl_Action = ActionPatch, hl_Timestamp = now e, hl_ChangeData = Some change,
     hl_S3PathBefore = [], hl_S3PathAfter = [],
     hl_ItemVersion = expectedNewVersion, hl_RevertedToLogID = None\<rparr>"

text \<open>Step 8: the loop over the changes; \<open>i\<close> is the index of the change at the head.\<close>

fun logPatches ::
  "env \<Rightarrow> string \<Rightarrow> string \<Rightarrow> string \<Rightarrow> int \<Rightarrow> nat \<Rightarrow> Change list \<Rightarrow> state \<Rightarrow> state" where
  "logPatches e userID itemID itemTypeStr v i [] s = s"
| "logPatches e userID itemID itemTypeStr v i (change # rest) s =
     logPatches e userID itemID itemTypeStr v (Suc i) rest
       (snd (dbLogAction e (f_dbLogPatch e i)
               (patchLog e userID itemID itemTypeStr v change) s))"

text \<open>Steps 7 to 9, after the metadata update went through.\<close>

definition postUpdateActions ::
  "env \<Rightarrow> string \<Rightarrow> string \<Rightarrow> ItemType \<Rightarrow> string \<Rightarrow> int \<Rightarrow> string \<Rightarrow> string \<Rightarrow> Change list
     \<Rightarrow> state \<Rightarrow> state" where
  "postUpdateActions e userID itemID itemType itemTypeStr expectedNewVersion s3Path newContent
      changes s =
    (let s1 = snd (cacheDeleteItemMeta e itemID itemType s);
         s2 = snd (cacheInvalidateItemContent e itemID itemType s1);
         s3 = snd (cacheSetItemContent e itemID itemType expectedNewVersion newContent s2);
         s4 = logPatches e userID itemID itemTypeStr expectedNewVersion 0 changes s3
     in handleSnapshotting e userID itemID itemType itemTypeStr expectedNewVersion s3Path
          (int (length changes)) s4)"

text \<open>Steps 6 to 9.\<close>

definition commitChanges ::
  "env \<Rightarrow> string \<Rightarrow> string \<Rightarrow> ItemType \<Rightarrow> string \<Rightarrow> Meta \<Rightarrow> int \<Rightarrow> string \<Rightarrow> string
     \<Rightarrow> Change list \<Rightarrow> state \<Rightarrow> apply_result \<times> state" where
  "commitChanges e userID itemID itemType itemTypeStr meta currentVersion s3Path newContent
      changes s =
    (let expectedNewVersion = currentVersion + 1 in
     case updateItemMeta e itemType meta currentVersion s3Path s of
       (Inl err, s1) \<Rightarrow> (Inl (err, 0), s1)
     | (Inr (Some dbUpdateErr), s1) \<Rightarrow>
         (if dbUpdateErr = DbErrVersionMismatch then
            (case getItemVersion e itemID itemType s1 of
               (Inl fetchErr, s2) \<Rightarrow> (Inl (ErrInconsistentState, 0), s2)
             | (Inr latestVersion, s2) \<Rightarrow> (Inl (ErrVersionConflict, latestVersion), s2))
          else (Inl (ErrInconsistentState, 0), s1))
     | (Inr None, s1) \<Rightarrow>
         (Inr (expectedNewVersion, changes),
          postUpdateActions e userID itemID itemType itemTypeStr expectedNewVersion s3Path
            newContent changes s1))"

definition ApplyItemChanges ::
  "env \<Rightarrow> string \<Rightarrow> string \<Rightarrow> string \<Rightarrow> int \<Rightarrow> Change list \<Rightarrow> state \<Rightarrow> apply_result \<times> state" where
  "ApplyItemChanges e userID itemID itemTypeStr baseVersion changes s =
    (let itemType = itemTypeStr in
     if \<not> IsValid itemType then (Inl (ErrInvalidItemType, 0), s)
     else
       (case getItemMetaWithCache e itemID itemType s of
          (Inl err, s1) \<Rightarrow> (Inl (err, 0), s1)
        | (Inr meta, s1) \<Rightarrow>
            (case validateForApply itemType meta userID baseVersion of
               Inl r \<Rightarrow> (Inl r, s1)
             | Inr (s3Path0, currentVersion, contentType) \<Rightarrow>
                 (let s3Path = (if s3Path0 = [] then generateS3Path e userID itemID itemType
                                else s3Path0) in
                  case getItemContentFromSource e itemID itemType currentVersion s3Path s1 of
                    (Inl err, s2) \<Rightarrow>
                      (Inl (ErrOther ''failed to retrieve current content for update'', 0), s2)
                  | (Inr currentContent, s2) \<Rightarrow>
                      (case applyChanges e currentContent changes of
                         None \<Rightarrow> (Inl (ErrApplyChange, 0), s2)
                       | Some newContent \<Rightarrow>
                           (case storageUploadFile e s3Path newContent contentType s2 of
                              (Some uploadErr, s3) \<Rightarrow>
                                (Inl (ErrOther ''failed to save updated content to storage'', 0),
                                 s3)
                            | (None, s3) \<Rightarrow>
                                commitChanges e userID itemID itemType itemTypeStr meta
                                  currentVersion s3Path newContent changes s3))))))"

subsection \<open>GetItemContent\<close>

text \<open>The \<^verbatim>\<open>switch itemType\<close> shared by \<^verbatim>\<open>GetItemContent\<close> and \<^verbatim>\<open>DeleteItem\<close>: the type
  assertion, the ownership check, and the fields read from the metadata.\<close>

definition ownedFields :: "ItemType \<Rightarrow> Meta \<Rightarrow> string \<Rightarrow> error + (string \<times> string \<times> int)" where
  "ownedFields itemType meta userID =
    (if itemType = ItemTypePost then
       (case meta of
          PostMeta postMeta \<Rightarrow>
            (if p_UserID postMeta \<noteq> userID then Inl ErrPermissionDenied
             else Inr (p_S3Path postMeta, p_UserID postMeta, p_Version postMeta))
        | CodeFileMeta f \<Rightarrow> Inl ErrPanic)
     else if itemType = ItemTypeCodeFile then
       (case meta of
          CodeFileMeta fileMeta \<Rightarrow>
            (if cf_UserID fileMeta \<noteq> userID then Inl ErrPermissionDenied
             else Inr (cf_S3Path fileMeta, cf_UserID fileMeta, cf_Version fileMeta))
        | PostMeta p \<Rightarrow> Inl ErrPanic)
     else Inr ([], [], 0))"

definition GetItemContent ::
  "env \<Rightarrow> string \<Rightarrow> string \<Rightarrow> string \<Rightarrow> state \<Rightarrow> (error + (string \<times> int)) \<times> state" where
  "GetItemContent e userID itemID itemTypeStr s =
    (let itemType = itemTypeStr in
     if \<not> IsValid itemType then (Inl ErrInvalidItemType, s)
     else
       (case getItemMetaWithCache e itemID itemType s of
          (Inl err, s1) \<Rightarrow> (Inl err, s1)
        | (Inr meta, s1) \<Rightarrow>
            (case ownedFields itemType meta userID of
               Inl err \<Rightarrow> (Inl err, s1)
             | Inr (s3Path, ownerUserID, currentVersion) \<Rightarrow>
                 (if ownerUserID \<noteq> userID then (Inl ErrPermissionDenied, s1)
                  else
                    (case cacheGetItemContent e itemID itemType currentVersion s1 of
                       (Inr cachedContent, s2) \<Rightarrow> (Inr (cachedContent, currentVersion), s2)
                     | (Inl cacheErr, s2) \<Rightarrow>
                         (if s3Path = [] then (Inr ([], currentVersion), s2)
                          else
                            (case storageDownloadFile e s3Path s2 of
                               (Inl ErrFileNotFound, s3) \<Rightarrow> (Inr ([], currentVersion), s3)
                             | (Inl StorageErrOther, s3) \<Rightarrow>
                                 (Inl (ErrOther ''failed to retrieve content''), s3)
                             | (Inr contentBytes, s3) \<Rightarrow>
                                 (if f_readAll e
                                  then (Inl (ErrOther ''failed to read content''), s3)
                                  else (Inr (contentBytes, currentVersion),
                                        snd (cacheSetItemContent e itemID itemType
                                               currentVersion contentBytes s3))))))))))"

subsection \<open>DeleteItem\<close>




subsection \<open>GetHistory\<close>

definition checkOwner :: "ItemType \<Rightarrow> Meta \<Rightarrow> string \<Rightarrow> error option" where
  "checkOwner itemType meta userID =
    (if itemType = ItemTypePost then
       (case meta of
          PostMeta postMeta \<Rightarrow>
            (if p_UserID postMeta \<noteq> userID then Some ErrPermissionDenied else None)
        | CodeFileMeta f \<Rightarrow> Some ErrPanic)
     else if itemType = ItemTypeCodeFile then
       (case meta of
          CodeFileMeta fileMeta \<Rightarrow>
            (if cf_UserID fileMeta \<noteq> userID then Some ErrPermissionDenied else None)
        | PostMeta p \<Rightarrow> Some ErrPanic)
     else None)"

definition GetHistory ::
  "env \<Rightarrow> string \<Rightarrow> string \<Rightarrow> string \<Rightarrow> int \<Rightarrow> state \<Rightarrow> (error + HistoryLog list) \<times> state" where
  "GetHistory e userID itemID itemTypeStr limit s =
    (let itemType = itemTypeStr in
     if \<not> IsValid itemType then (Inl ErrInvalidItemType, s)
     else
       (case getItemMetaWithCache e itemID itemType s of
          (Inl err, s1) \<Rightarrow> (Inl err, s1)
        | (Inr meta, s1) \<Rightarrow>
            (case checkOwner itemType meta userID of
               Some err \<Rightarrow> (Inl err, s1)
             | None \<Rightarrow>
                 (case dbGetActionHistory e itemID itemTypeStr limit s1 of
                    (Inl dbErr, s2) \<Rightarrow> (Inl (ErrOther ''failed to retrieve history''), s2)
                  | (Inr h, s2) \<Rightarrow> (Inr h, s2)))))"

subsection \<open>RevertToAction\<close>

text \<open>The \<^verbatim>\<open>switch itemType\<close> of step 3.\<close>

definition revertFields ::
  "ItemType \<Rightarrow> Meta \<Rightarrow> string \<Rightarrow> error + (string \<times> string \<times> int \<times> string)" where
  "revertFields itemType meta userID =
    (if itemType = ItemTypePost then
       (case meta of
          PostMeta postMeta \<Rightarrow>
            (if p_UserID postMeta \<noteq> userID then Inl ErrPermissionDenied
             else Inr (p_S3Path postMeta, p_UserID postMeta, p_Version postMeta,
                       ''text/markdown''))
        | CodeFileMeta f \<Rightarrow> Inl ErrPanic)
     else if itemType = ItemTypeCodeFile then
       (case meta of
          CodeFileMeta fileMeta \<Rightarrow>
            (if cf_UserID fileMeta \<noteq> userID then Inl ErrPermissionDenied
             else Inr (cf_S3Path fileMeta, cf_UserID fileMeta, cf_Version fileMeta,
                       ''text/plain''))
        | PostMeta p \<Rightarrow> Inl ErrPanic)
     else Inr ([], [], 0, []))"

text \<open>Step 6 of the revert: the metadata update with the expected version; the path is
  left as the metadata has it.\<close>

definition revertUpdateItemMeta ::
  "env \<Rightarrow> ItemType \<Rightarrow> Meta \<Rightarrow> int \<Rightarrow> state \<Rightarrow> (error + db_error option) \<times> state" where
  "revertUpdateItemMeta e itemType meta currentVersion s =
    (if itemType = ItemTypePost then
       (case meta of
          PostMeta postMeta \<Rightarrow>
            (case dbUpdatePostMeta e
                    (postMeta\<lparr>p_UpdatedAt := now e, p_Version := currentVersion\<rparr>) s of
               (dbUpdateErr, s1) \<Rightarrow> (Inr dbUpdateErr, s1))
        | CodeFileMeta f \<Rightarrow> (Inl ErrPanic, s))
     else if itemType = ItemTypeCodeFile then
       (case meta of
          CodeFileMeta fileMeta \<Rightarrow>
            (case dbUpdateCodeFileMeta e
                    (fileMeta\<lparr>cf_UpdatedAt := now e, cf_Version := currentVersion\<rparr>) s of
               (dbUpdateErr, s1) \<Rightarrow> (Inr dbUpdateErr, s1))
        | PostMeta p \<Rightarrow> (Inl ErrPanic, s))
     else (Inr None, s))"

definition revertLog :: "env \<Rightarrow> string \<Rightarrow> HistoryLog \<Rightarrow> string \<Rightarrow> string \<Rightarrow> int \<Rightarrow> HistoryLog" where
  "revertLog e userID targetLog targetLogID currentS3Path expectedNewVersion =
    \<lparr>hl_ID = [], hl_UserID = userID, hl_ItemID = hl_ItemID targetLog,
     hl_ItemType = hl_ItemType targetLog,
     hl_Action = ActionRevert, hl_Timestamp = now e, hl_ChangeData = None,
     hl_S3PathBefore = [], hl_S3PathAfter = currentS3Path,
     hl_ItemVersion = expectedNewVersion, hl_RevertedToLogID = Some targetLogID\<rparr>"

text \<open>Steps 4 to 8, once the target entry and the ownership have been checked.\<close>

definition revertContent ::
  "env \<Rightarrow> string \<Rightarrow> string \<Rightarrow> HistoryLog \<Rightarrow> ItemType \<Rightarrow> Meta \<Rightarrow> string \<Rightarrow> int \<Rightarrow> string
     \<Rightarrow> state \<Rightarrow> (error + int) \<times> state" where
  "revertContent e userID targetLogID targetLog itemType meta currentS3Path currentVersion
      contentType s =
    (case storageDownloadFile e (hl_S3PathAfter targetLog) s of
       (Inl downloadErr, s1) \<Rightarrow>
         (Inl (ErrOther ''failed to retrieve content for revert state''), s1)
     | (Inr revertContentBytes, s1) \<Rightarrow>
         (if f_readAll e then (Inl (ErrOther ''failed to read content for revert state''), s1)
          else
            (case storageUploadFile e currentS3Path revertContentBytes contentType s1 of
               (Some uploadErr, s2) \<Rightarrow> (Inl (ErrOther ''failed to save reverted content''), s2)
             | (None, s2) \<Rightarrow>
                 (let expectedNewVersion = currentVersion + 1 in
                  case revertUpdateItemMeta e itemType meta currentVersion s2 of
                    (Inl err, s3) \<Rightarrow> (Inl err, s3)
                  | (Inr (Some dbUpdateErr), s3) \<Rightarrow> (Inl ErrInconsistentState, s3)
                  | (Inr None, s3) \<Rightarrow>
                      (let s4 = snd (cacheDeleteItemMeta e (hl_ItemID targetLog) itemType s3);
                           s5 = snd (cacheInvalidateItemContent e (hl_ItemID targetLog)
                                       itemType s4);
                           s6 = snd (cacheSetItemContent e (hl_ItemID targetLog) itemType
                                       expectedNewVersion revertContentBytes s5);
                           s7 = snd (dbLogAction e (f_dbLogAction e)
                                       (revertLog e userID targetLog targetLogID currentS3Path
                                          expectedNewVersion) s6)
                       in (Inr expectedNewVersion,
                           s7\<lparr>changeCounters :=
                                (changeCounters s7)
                                  (counterKey itemType (hl_ItemID targetLog) := None)\<rparr>))))))"

definition RevertToAction ::
  "env \<Rightarrow> string \<Rightarrow> string \<Rightarrow> state \<Rightarrow> (error + int) \<times> state" where
  "RevertToAction e userID targetLogID s =
    (case dbGetHistoryLogByID e targetLogID s of
       (Inl DbErrNotFound, s1) \<Rightarrow> (Inl ErrHistoryLogNotFound, s1)
     | (Inl dbErr, s1) \<Rightarrow> (Inl (ErrOther ''failed to retrieve target history state''), s1)
     | (Inr targetLog, s1) \<Rightarrow>
         (let itemType = hl_ItemType targetLog in
          if \<not> IsValid itemType then (Inl ErrInvalidItemType, s1)
          else if hl_Action targetLog \<noteq> ActionCreate \<and> hl_Action targetLog \<noteq> ActionSnapshot
          then (Inl ErrRevertNotAllowed, s1)
          else if hl_S3PathAfter targetLog = []
          then (Inl (ErrOther ''cannot revert: target state content path missing''), s1)
          else
            (case getItemMetaWithCache e (hl_ItemID targetLog) itemType s1 of
               (Inl err, s2) \<Rightarrow> (Inl err, s2)
             | (Inr meta, s2) \<Rightarrow>
                 (case revertFields itemType meta userID of
                    Inl err \<Rightarrow> (Inl err, s2)
                  | Inr (currentS3Path, ownerUserID, currentVersion, contentType) \<Rightarrow>
                      (if ownerUserID \<noteq> userID then (Inl ErrPermissionDenied, s2)
                       else if currentS3Path = []
                       then (Inl (ErrOther ''internal error: item missing storage path''), s2)
                       else revertContent e userID targetLogID targetLog itemType meta
                              currentS3Path currentVersion contentType s2)))))"

subsection \<open>RegisterUser and LoginUser\<close>

text \<open>
  The sources elide the hashing call and the error handling of the two functions. The
  hashing is \<^verbatim>\<open>bcrypt.GenerateFromPassword\<close>, which can fail; the comments give the error
  mapping: a duplicate user becomes \<^verbatim>\<open>ErrUsernameTaken\<close>, a failed lookup or comparison
  becomes \<^verbatim>\<open>ErrInvalidCredentials\<close>.
\<close>

definition RegisterUser :: "env \<Rightarrow> string \<Rightarrow> string \<Rightarrow> state \<Rightarrow> (error + User) \<times> state" where
  "RegisterUser e username password s =
    (case GenerateFromPassword e password of
       None \<Rightarrow> (Inl (ErrOther ''failed to hash password''), s)
     | Some hashedPassword \<Rightarrow>
         (let user = \<lparr>u_ID = username, u_Username = username,
                      u_PasswordHash = hashedPassword, u_CreatedAt = now e\<rparr> in
          case dbCreateUser e user s of
            (Some DbErrDuplicateUser, s1) \<Rightarrow> (Inl ErrUsernameTaken, s1)
          | (Some dbErr, s1) \<Rightarrow> (Inl (ErrOther ''failed to create user''), s1)
          | (None, s1) \<Rightarrow> (Inr (user\<lparr>u_PasswordHash := []\<rparr>), s1)))"

definition LoginUser ::
  "env \<Rightarrow> string \<Rightarrow> string \<Rightarrow> state \<Rightarrow> (error + (string \<times> User)) \<times> state" where
  "LoginUser e username password s =
    (let s1 = snd (cacheGetUser e username s) in
     case dbGetUserByUsername e username s1 of
       (Inl dbErr, s2) \<Rightarrow> (Inl ErrInvalidCredentials, s2)
     | (Inr user, s2) \<Rightarrow>
         (if \<not> CompareHashAndPassword e (u_PasswordHash user) password
          then (Inl ErrInvalidCredentials, s2)
          else
            (case GenerateJWT e (u_ID user) of
               None \<Rightarrow> (Inl (ErrOther ''failed to generate token''), s2)
             | Some token \<Rightarrow>
                 (let user' = user\<lparr>u_PasswordHash := []\<rparr>
                  in (Inr (token, user'), snd (cacheSetUser e user' s2))))))"

section \<open>Observations on a run\<close>

text \<open>The calls a run from \<open>s\<close> to \<open>s'\<close> has issued.\<close>

definition newCalls :: "state \<Rightarrow> state \<Rightarrow> (call \<times> bool) list" where
  "newCalls s s' = drop (length (calls s)) (calls s')"

text \<open>The metadata the store holds for an item, by item type.\<close>

definition storedVersion :: "state \<Rightarrow> ItemType \<Rightarrow> string \<Rightarrow> int option" where
  "storedVersion s itemType itemID =
    (if itemType = ItemTypePost then map_option p_Version (posts s itemID)
     else if itemType = ItemTypeCodeFile then map_option cf_Version (codefiles s itemID)
     else None)"

definition storedS3Path :: "state \<Rightarrow> ItemType \<Rightarrow> string \<Rightarrow> string option" where
  "storedS3Path s itemType itemID =
    (if itemType = ItemTypePost then map_option p_S3Path (posts s itemID)
     else if itemType = ItemTypeCodeFile then map_option cf_S3Path (codefiles s itemID)
     else None)"

definition storedMeta :: "state \<Rightarrow> ItemType \<Rightarrow> string \<Rightarrow> Meta option" where
  "storedMeta s itemType itemID =
    (if itemType = ItemTypePost then map_option PostMeta (posts s itemID)
     else if itemType = ItemTypeCodeFile then map_option CodeFileMeta (codefiles s itemID)
     else None)"

text \<open>The metadata the cache holds for an item, by item type.\<close>

definition cachedMeta :: "state \<Rightarrow> ItemType \<Rightarrow> string \<Rightarrow> Meta option" where
  "cachedMeta s itemType itemID =
    (if itemType = ItemTypePost then map_option PostMeta (postCache s itemID)
     else if itemType = ItemTypeCodeFile then map_option CodeFileMeta (codefileCache s itemID)
     else None)"

text \<open>The lookup call \<^verbatim>\<open>getItemMetaWithCache\<close> sends to the database for an item type.\<close>

definition dbGetMetaCall :: "ItemType \<Rightarrow> string \<Rightarrow> call" where
  "dbGetMetaCall itemType itemID =
    (if itemType = ItemTypePost then DbGetPostMetaByID itemID else DbGetCodeFileMetaByID itemID)"

text \<open>A run only adds to the record of calls.\<close>

definition extendsCalls :: "state \<Rightarrow> state \<Rightarrow> bool" where
  "extendsCalls s s' = (calls s' = calls s @ newCalls s s')"

text \<open>Calls that ask a store to change something.\<close>

fun isWrite :: "call \<Rightarrow> bool" where
  "isWrite (CacheGetUser u) = False"
| "isWrite (CacheSetUser u) = True"
| "isWrite (CacheGetItemMeta i t) = False"
| "isWrite (CacheSetItemMeta i t m) = True"
| "isWrite (CacheDeleteItemMeta i t) = True"
| "isWrite (CacheGetItemContent i t v) = False"
| "isWrite (CacheSetItemContent i t v c) = True"
| "isWrite (CacheInvalidateItemContent i t) = True"
| "isWrite (DbGetUserByUsername u) = False"
| "isWrite (DbCreateUser u) = True"
| "isWrite (DbGetPostMetaByID i) = False"
| "isWrite (DbGetCodeFileMetaByID i) = False"
| "isWrite (DbUpdatePostMeta p) = True"
| "isWrite (DbUpdateCodeFileMeta f) = True"
| "isWrite (DbDeletePostMeta i) = True"
| "isWrite (DbDeleteCodeFileMeta i) = True"
| "isWrite (DbLogAction l) = True"
| "isWrite (DbGetActionHistory i t n) = False"
| "isWrite (DbGetHistoryLogByID i) = False"
| "isWrite (StorageUploadFile k b c) = True"
| "isWrite (StorageDownloadFile k) = False"
| "isWrite (StorageDeleteFile k) = True"

text \<open>The read-through fill of the metadata cache for one item.\<close>

fun isMetaFill :: "ItemType \<Rightarrow> string \<Rightarrow> call \<Rightarrow> bool" where
  "isMetaFill itemType itemID (CacheSetItemMeta i t m) = (i = itemID \<and> t = itemType)"
| "isMetaFill itemType itemID c = False"

fun isMetaUpdate :: "call \<Rightarrow> bool" where
  "isMetaUpdate (DbUpdatePostMeta p) = True"
| "isMetaUpdate (DbUpdateCodeFileMeta f) = True"
| "isMetaUpdate c = False"

fun isUpload :: "call \<Rightarrow> bool" where
  "isUpload (StorageUploadFile k b c) = True"
| "isUpload c = False"

fun isSnapshotCall :: "call \<Rightarrow> bool" where
  "isSnapshotCall (DbLogAction l) = (hl_Action l = ActionSnapshot)"
| "isSnapshotCall c = False"

definition readOnly :: "call \<times> bool \<Rightarrow> bool" where
  "readOnly x = (\<not> isWrite (fst x))"

definition readOrFill :: "ItemType \<Rightarrow> string \<Rightarrow> call \<times> bool \<Rightarrow> bool" where
  "readOrFill itemType itemID x = (\<not> isWrite (fst x) \<or> isMetaFill itemType itemID (fst x))"

text \<open>The same, also allowing an upload that failed.\<close>

definition readFillOrFailedUpload :: "ItemType \<Rightarrow> string \<Rightarrow> call \<times> bool \<Rightarrow> bool" where
  "readFillOrFailedUpload itemType itemID x =
    (readOrFill itemType itemID x \<or> (isUpload (fst x) \<and> \<not> snd x))"

definition noMetaUpdate :: "call \<times> bool \<Rightarrow> bool" where
  "noMetaUpdate x = (\<not> isMetaUpdate (fst x))"

text \<open>A call that is neither a metadata update nor an upload nor a snapshot append.\<close>

definition plainCall :: "call \<times> bool \<Rightarrow> bool" where
  "plainCall x = (\<not> isMetaUpdate (fst x) \<and> \<not> isUpload (fst x) \<and> \<not> isSnapshotCall (fst x))"

text \<open>A run in which all calls issued satisfy \<open>P\<close>.\<close>

definition step :: "(call \<times> bool \<Rightarrow> bool) \<Rightarrow> state \<Rightarrow> state \<Rightarrow> bool" where
  "step P s s' = (extendsCalls s s' \<and> list_all P (newCalls s s'))"

text \<open>Some metadata update among the calls was refused or failed.\<close>

definition casFailed :: "(call \<times> bool) list \<Rightarrow> bool" where
  "casFailed tr = list_ex (\<lambda>x. isMetaUpdate (fst x) \<and> \<not> snd x) tr"

text \<open>Every metadata update among the calls comes after an upload that succeeded
  (\<open>up\<close>: one has been seen already).\<close>

fun casAfterUpload :: "bool \<Rightarrow> (call \<times> bool) list \<Rightarrow> bool" where
  "casAfterUpload up [] = True"
| "casAfterUpload up (x # tr) =
     (if isMetaUpdate (fst x) then up \<and> casAfterUpload up tr
      else casAfterUpload (up \<or> (isUpload (fst x) \<and> snd x)) tr)"

definition snapshotCalls :: "(call \<times> bool) list \<Rightarrow> (call \<times> bool) list" where
  "snapshotCalls tr = filter (\<lambda>x. isSnapshotCall (fst x)) tr"

text \<open>The stores other than the metadata cache are the same in both states.\<close>

definition sameStores :: "state \<Rightarrow> state \<Rightarrow> bool" where
  "sameStores s s' =
    (users s' = users s \<and> posts s' = posts s \<and> codefiles s' = codefiles s
     \<and> history s' = history s \<and> files s' = files s \<and> userCache s' = userCache s
     \<and> contentCache s' = contentCache s \<and> changeCounters s' = changeCounters s)"

definition sameMetaCache :: "state \<Rightarrow> state \<Rightarrow> bool" where
  "sameMetaCache s s' = (postCache s' = postCache s \<and> codefileCache s' = codefileCache s)"

text \<open>The metadata cache is as before, or the entry of the item has been filled with the
  JSON image of what the store holds for it.\<close>

definition metaCacheFill :: "ItemType \<Rightarrow> string \<Rightarrow> state \<Rightarrow> state \<Rightarrow> bool" where
  "metaCacheFill itemType itemID s s' =
    ((postCache s' = postCache s
       \<or> (itemType = ItemTypePost \<and>
          (case posts s itemID of
             None \<Rightarrow> False
           | Some p \<Rightarrow> postCache s' = (postCache s)(itemID \<mapsto> jsonPost (p\<lparr>p_ID := itemID\<rparr>)))))
     \<and> (codefileCache s' = codefileCache s
       \<or> (itemType = ItemTypeCodeFile \<and>
          (case codefiles s itemID of
             None \<Rightarrow> False
           | Some f \<Rightarrow> codefileCache s' =
                        (codefileCache s)(itemID \<mapsto> jsonCodeFile (f\<lparr>cf_ID := itemID\<rparr>))))))"

fun metaID :: "Meta \<Rightarrow> string" where
  "metaID (PostMeta p) = p_ID p"
| "metaID (CodeFileMeta f) = cf_ID f"

fun metaOwner :: "Meta \<Rightarrow> string" where
  "metaOwner (PostMeta p) = p_UserID p"
| "metaOwner (CodeFileMeta f) = cf_UserID f"

fun metaVersion :: "Meta \<Rightarrow> int" where
  "metaVersion (PostMeta p) = p_Version p"
| "metaVersion (CodeFileMeta f) = cf_Version f"

fun metaS3Path :: "Meta \<Rightarrow> string" where
  "metaS3Path (PostMeta p) = p_S3Path p"
| "metaS3Path (CodeFileMeta f) = cf_S3Path f"

text \<open>The metadata is of the struct type that goes with the item type.\<close>

fun metaOfType :: "ItemType \<Rightarrow> Meta \<Rightarrow> bool" where
  "metaOfType itemType (PostMeta p) = (itemType = ItemTypePost)"
| "metaOfType itemType (CodeFileMeta f) = (itemType = ItemTypeCodeFile)"


section \<open>Example data\<close>

definition ch0 :: Change where
  "ch0 = \<lparr>c_Line = 0, c_Column = 3, c_Text = ''d'', c_Removed = 0\<rparr>"

definition post1 :: Post where
  "post1 = \<lparr>p_ID = ''p1'', p_UserID = ''alice'', p_Title = ''Hello'', p_Slug = ''hello'',
            p_CreatedAt = 1, p_UpdatedAt = 1, p_S3Path = ''post/alice/p1'', p_Version = 1\<rparr>"

definition createLog1 :: HistoryLog where
  "createLog1 = \<lparr>hl_ID = ''L1'', hl_UserID = ''alice'', hl_ItemID = ''p1'',
     hl_ItemType = ''post'', hl_Action = ActionCreate, hl_Timestamp = 1, hl_ChangeData = None,
     hl_S3PathBefore = [], hl_S3PathAfter = ''post/alice/p1'',
     hl_ItemVersion = 1, hl_RevertedToLogID = None\<rparr>"

text \<open>An environment without faults. Its change applier appends the inserted texts; it
  stands in for the applier of the repository, which the theorems leave arbitrary.\<close>

definition env0 :: env where
  "env0 = \<lparr>now = 2, IntervalChanges = 3,
     newLogID = (\<lambda>n. replicate (Suc n) CHR ''L''),
     applyChanges = (\<lambda>text cs. Some (text @ concat (map c_Text cs))),
     generateS3Path = (\<lambda>userID itemID itemType. itemType @ ''/'' @ userID @ ''/'' @ itemID),
     GenerateFromPassword = (\<lambda>pw. Some (''hash:'' @ pw)),
     CompareHashAndPassword = (\<lambda>h pw. h = ''hash:'' @ pw),
     GenerateJWT = (\<lambda>userID. Some (''jwt:'' @ userID)),
     f_cacheGetUser = False, f_cacheSetUser = False, f_cacheGetItemMeta = False,
     f_cacheSetItemMeta = False, f_cacheDeleteItemMeta = False, f_cacheGetItemContent = False,
     f_cacheSetItemContent = False, f_cacheInvalidateItemContent = False,
     f_dbGetUser = False, f_dbCreateUser = False, f_dbGetMeta = False, f_dbUpdateMeta = False,
     f_dbDeleteMeta = False, f_dbGetVersion = False, f_dbLogPatch = (\<lambda>i. False),
     f_dbLogAction = False, f_dbGetActionHistory = False, f_dbGetHistoryLog = False,
     f_upload = False, f_download = False, f_readAll = False, f_deleteFile = False\<rparr>"

text \<open>One post of alice at version 1 with its blob and its create entry; empty cache.\<close>

definition st0 :: state where
  "st0 = \<lparr>users = Map.empty, posts = [''p1'' \<mapsto> post1], codefiles = Map.empty,
     history = [createLog1], files = [''post/alice/p1'' \<mapsto> ''abc''],
     userCache = Map.empty, postCache = Map.empty, codefileCache = Map.empty,
     contentCache = Map.empty, changeCounters = Map.empty, calls = []\<rparr>"

text \<open>The state after alice has read her post once: the lookup has put the metadata in
  the cache.\<close>

definition stCached :: state where
  "stCached = snd (GetItemContent env0 ''alice'' ''p1'' ''post'' st0)"

text \<open>The user record of alice as the service hands it out, and the state after she has
  registered with the password \<^verbatim>\<open>secret\<close>.\<close>

definition aliceUser :: User where
  "aliceUser = \<lparr>u_ID = ''alice'', u_Username = ''alice'', u_PasswordHash = [], u_CreatedAt = 2\<rparr>"

definition stRegistered :: state where
  "stRegistered = snd (RegisterUser env0 ''alice'' ''secret'' st0)"

text \<open>The post is gone from the store while the cache still holds its metadata (as the
  Redis cache keeps it: without path and version), for instance after a delete whose cache
  invalidation failed or that another node performed.\<close>

definition stGhost :: state where
  "stGhost = st0\<lparr>posts := Map.empty, postCache := [''p1'' \<mapsto> jsonPost post1]\<rparr>"

text \<open>An environment whose change applier rejects every batch, and one whose metadata
  update fails in the store.\<close>

definition envNoApply :: env where
  "envNoApply = env0\<lparr>applyChanges := (\<lambda>text cs. None)\<rparr>"

definition envCasFault :: env where
  "envCasFault = env0\<lparr>f_dbUpdateMeta := True\<rparr>"

section \<open>Unfolding rules\<close>

lemmas store_defs = record_call_def jsonPost_def jsonCodeFile_def jsonUser_def
  cacheGetUser_def cacheSetUser_def cacheGetItemMeta_def cacheSetItemMeta_def
  cacheDeleteItemMeta_def cacheGetItemContent_def cacheSetItemContent_def
  cacheInvalidateItemContent_def dbGetUserByUsername_def dbCreateUser_def
  dbGetPostMetaByID_def dbGetCodeFileMetaByID_def dbUpdatePostMeta_def
  dbUpdateCodeFileMeta_def dbDeletePostMeta_def dbDeleteCodeFileMeta_def dbLogAction_def
  dbGetActionHistory_def dbGetHistoryLogByID_def storageUploadFile_def
  storageDownloadFile_def storageDeleteFile_def

lemmas type_defs = ItemTypePost_def ItemTypeCodeFile_def IsValid_def

lemmas apply_defs = ApplyItemChanges_def commitChanges_def postUpdateActions_def
  updateItemMeta_def validateForApply_def handleSnapshotting_def counterOf_def counterKey_def
  getItemContentFromSource_def getItemMetaWithCache_def getItemVersion_def mapDBError_def
  snapshotLog_def patchLog_def

lemmas fixture_defs = ch0_def post1_def createLog1_def env0_def st0_def stGhost_def
  envNoApply_def envCasFault_def

lemmas obs_defs = newCalls_def storedVersion_def storedS3Path_def storedMeta_def
  cachedMeta_def dbGetMetaCall_def

section \<open>ApplyItemChanges: the version and the changes returned on success\<close>

lemma validateForApply_Inr:
  "IsValid itemType \<Longrightarrow> validateForApply itemType meta userID baseVersion = Inr (p, v, c)
     \<Longrightarrow> v = baseVersion"
  by (auto simp: validateForApply_def IsValid_def split: if_splits Meta.splits)




section \<open>Item types\<close>

lemma ItemType_neq [simp]:
  "ItemTypePost \<noteq> ItemTypeCodeFile" "ItemTypeCodeFile \<noteq> ItemTypePost"
  by (simp_all add: type_defs)

lemma IsValid_cases:
  assumes "IsValid itemType"
  obtains "itemType = ItemTypePost" | "itemType = ItemTypeCodeFile"
  using assms by (auto simp: IsValid_def)

section \<open>Composing runs\<close>

lemma extendsCalls_refl [simp]: "extendsCalls s s"
  by (simp add: extendsCalls_def newCalls_def)

lemma newCalls_same [simp]: "newCalls s s = []"
  by (simp add: newCalls_def)

lemma newCalls_trans:
  assumes "extendsCalls s s1" and "extendsCalls s1 s2"
  shows "extendsCalls s s2 \<and> newCalls s s2 = newCalls s s1 @ newCalls s1 s2"
proof -
  define a where "a = newCalls s s1"
  define b where "b = newCalls s1 s2"
  from assms have e1: "calls s1 = calls s @ a" and e2: "calls s2 = calls s1 @ b"
    by (simp_all add: extendsCalls_def a_def b_def)
  then have e3: "calls s2 = calls s @ (a @ b)" by simp
  then have "newCalls s s2 = a @ b" by (simp add: newCalls_def)
  with e3 show ?thesis by (simp add: extendsCalls_def a_def b_def)
qed

lemma step_refl [simp]: "step P s s"
  by (simp add: step_def)

lemma step_trans:
  assumes "step P s s1" and "step P s1 s2"
  shows "step P s s2"
  using assms newCalls_trans [of s s1 s2] by (simp add: step_def)

lemma step_mono:
  assumes "step P s s1" and "\<And>x. P x \<Longrightarrow> Q x"
  shows "step Q s s1"
  using assms by (auto simp: step_def list_all_iff)

lemma step_calls:
  assumes "calls s1 = calls s @ tr" and "list_all P tr"
  shows "step P s s1"
  using assms by (simp add: step_def extendsCalls_def newCalls_def)

lemma sameStores_refl [simp]: "sameStores s s"
  by (simp add: sameStores_def)

lemma sameStores_trans: "sameStores s s1 \<Longrightarrow> sameStores s1 s2 \<Longrightarrow> sameStores s s2"
  by (simp add: sameStores_def)

lemma sameMetaCache_refl [simp]: "sameMetaCache s s"
  by (simp add: sameMetaCache_def)

lemma sameMetaCache_trans: "sameMetaCache s s1 \<Longrightarrow> sameMetaCache s1 s2 \<Longrightarrow> sameMetaCache s s2"
  by (simp add: sameMetaCache_def)

lemma metaCacheFill_same:
  "metaCacheFill t i s s1 \<Longrightarrow> sameMetaCache s1 s2 \<Longrightarrow> metaCacheFill t i s s2"
  by (auto simp: metaCacheFill_def sameMetaCache_def split: option.splits)

lemma getItemMetaWithCache_effect:
  assumes "getItemMetaWithCache e itemID itemType s = (r, s1)"
  shows "step (readOrFill itemType itemID) s s1 \<and> sameStores s s1
         \<and> metaCacheFill itemType itemID s s1"
proof -
  consider "itemType = ItemTypePost" | "itemType = ItemTypeCodeFile"
    | "itemType \<noteq> ItemTypePost" "itemType \<noteq> ItemTypeCodeFile" by blast
  then show ?thesis
  proof cases
    case 1
    with assms show ?thesis
      by (auto simp: getItemMetaWithCache_def cacheGetItemMeta_def cacheSetItemMeta_def
            dbGetPostMetaByID_def record_call_def step_def extendsCalls_def newCalls_def
            sameStores_def metaCacheFill_def readOrFill_def
          split: option.splits if_splits)
  next
    case 2
    with assms show ?thesis
      by (auto simp: getItemMetaWithCache_def cacheGetItemMeta_def cacheSetItemMeta_def
            dbGetCodeFileMetaByID_def record_call_def step_def extendsCalls_def newCalls_def
            sameStores_def metaCacheFill_def readOrFill_def
          split: option.splits if_splits)
  next
    case 3
    with assms show ?thesis
      by (auto simp: getItemMetaWithCache_def cacheGetItemMeta_def record_call_def
            step_def extendsCalls_def newCalls_def
            sameStores_def metaCacheFill_def readOrFill_def
          split: option.splits if_splits)
  qed
qed

lemma getItemContentFromSource_effect:
  assumes "getItemContentFromSource e itemID itemType version s3Path s = (r, s1)"
  shows "step readOnly s s1 \<and> sameStores s s1 \<and> sameMetaCache s s1"
  using assms
  by (auto simp: getItemContentFromSource_def cacheGetItemContent_def storageDownloadFile_def
        record_call_def step_def extendsCalls_def newCalls_def sameStores_def
        sameMetaCache_def readOnly_def
      split: option.splits if_splits)

lemma readOnly_readOrFill: "readOnly x \<Longrightarrow> readOrFill t i x"
  by (simp add: readOnly_def readOrFill_def)

lemma readOrFill_failedUpload: "readOrFill t i x \<Longrightarrow> readFillOrFailedUpload t i x"
  by (simp add: readFillOrFailedUpload_def)

lemma isMetaUpdate_isWrite: "isMetaUpdate c \<Longrightarrow> isWrite c \<and> \<not> isMetaFill t i c \<and> \<not> isUpload c"
  by (cases c) simp_all

lemma readOrFill_noMetaUpdate: "readOrFill t i x \<Longrightarrow> noMetaUpdate x"
  using isMetaUpdate_isWrite [of "fst x" t i] by (auto simp: readOrFill_def noMetaUpdate_def)

lemma readFillOrFailedUpload_noMetaUpdate: "readFillOrFailedUpload t i x \<Longrightarrow> noMetaUpdate x"
  using isMetaUpdate_isWrite [of "fst x" t i]
  by (auto simp: readFillOrFailedUpload_def readOrFill_def noMetaUpdate_def)

lemma casAfterUpload_True [simp]: "casAfterUpload True tr"
  by (induction tr) auto

lemma casAfterUpload_noMetaUpdate:
  "list_all noMetaUpdate xs \<Longrightarrow> casAfterUpload up xs"
  by (induction xs arbitrary: up) (auto simp: noMetaUpdate_def)

lemma casAfterUpload_after:
  "list_all noMetaUpdate xs \<Longrightarrow> isUpload c \<Longrightarrow> casAfterUpload up (xs @ (c, True) # ys)"
proof (induction xs arbitrary: up)
  case Nil
  then show ?case using isMetaUpdate_isWrite [of c] by auto
next
  case (Cons x xs)
  then show ?case by (auto simp: noMetaUpdate_def)
qed

lemma storageUploadFile_failed:
  assumes "storageUploadFile e k b c s = (Some err, s1)"
  shows "step (readFillOrFailedUpload t i) s s1 \<and> sameStores s s1 \<and> sameMetaCache s s1"
  using assms
  by (auto simp: storageUploadFile_def record_call_def step_def extendsCalls_def newCalls_def
        sameStores_def sameMetaCache_def readFillOrFailedUpload_def split: if_splits)

lemma storageUploadFile_ok:
  assumes "storageUploadFile e k b c s = (None, s1)"
  shows "extendsCalls s s1 \<and> newCalls s s1 = [(StorageUploadFile k b c, True)]
         \<and> files s1 = (files s)(k \<mapsto> b) \<and> posts s1 = posts s \<and> codefiles s1 = codefiles s
         \<and> history s1 = history s \<and> changeCounters s1 = changeCounters s
         \<and> postCache s1 = postCache s \<and> codefileCache s1 = codefileCache s"
  using assms
  by (auto simp: storageUploadFile_def record_call_def extendsCalls_def newCalls_def
      split: if_splits)

lemma ApplyItemChanges_cases [consumes 1, case_names invalid lookup_failed rejected
    content_failed apply_failed upload_failed committed]:
  assumes run: "ApplyItemChanges e userID itemID itemTypeStr baseVersion changes s = (r, s')"
  obtains
    "\<not> IsValid itemTypeStr" "r = Inl (ErrInvalidItemType, 0)" "s' = s"
  | err where "IsValid itemTypeStr"
      "getItemMetaWithCache e itemID itemTypeStr s = (Inl err, s')" "r = Inl (err, 0)"
  | meta rej where "IsValid itemTypeStr"
      "getItemMetaWithCache e itemID itemTypeStr s = (Inr meta, s')"
      "validateForApply itemTypeStr meta userID baseVersion = Inl rej" "r = Inl rej"
  | meta s1 s3Path0 currentVersion contentType err where "IsValid itemTypeStr"
      "getItemMetaWithCache e itemID itemTypeStr s = (Inr meta, s1)"
      "validateForApply itemTypeStr meta userID baseVersion
         = Inr (s3Path0, currentVersion, contentType)"
      "getItemContentFromSource e itemID itemTypeStr currentVersion
         (if s3Path0 = [] then generateS3Path e userID itemID itemTypeStr else s3Path0) s1
         = (Inl err, s')"
      "r = Inl (ErrOther ''failed to retrieve current content for update'', 0)"
  | meta s1 s3Path0 currentVersion contentType currentContent where "IsValid itemTypeStr"
      "getItemMetaWithCache e itemID itemTypeStr s = (Inr meta, s1)"
      "validateForApply itemTypeStr meta userID baseVersion
         = Inr (s3Path0, currentVersion, contentType)"
      "getItemContentFromSource e itemID itemTypeStr currentVersion
         (if s3Path0 = [] then generateS3Path e userID itemID itemTypeStr else s3Path0) s1
         = (Inr currentContent, s')"
      "applyChanges e currentContent changes = None" "r = Inl (ErrApplyChange, 0)"
  | meta s1 s3Path0 currentVersion contentType currentContent s2 newContent uploadErr
    where "IsValid itemTypeStr"
      "getItemMetaWithCache e itemID itemTypeStr s = (Inr meta, s1)"
      "validateForApply itemTypeStr meta userID baseVersion
         = Inr (s3Path0, currentVersion, contentType)"
      "getItemContentFromSource e itemID itemTypeStr currentVersion
         (if s3Path0 = [] then generateS3Path e userID itemID itemTypeStr else s3Path0) s1
         = (Inr currentContent, s2)"
      "applyChanges e currentContent changes = Some newContent"
      "storageUploadFile e
         (if s3Path0 = [] then generateS3Path e userID itemID itemTypeStr else s3Path0)
         newContent contentType s2 = (Some uploadErr, s')"
      "r = Inl (ErrOther ''failed to save updated content to storage'', 0)"
  | meta s1 s3Path0 currentVersion contentType currentContent s2 newContent s3
    where "IsValid itemTypeStr"
      "getItemMetaWithCache e itemID itemTypeStr s = (Inr meta, s1)"
      "validateForApply itemTypeStr meta userID baseVersion
         = Inr (s3Path0, currentVersion, contentType)"
      "getItemContentFromSource e itemID itemTypeStr currentVersion
         (if s3Path0 = [] then generateS3Path e userID itemID itemTypeStr else s3Path0) s1
         = (Inr currentContent, s2)"
      "applyChanges e currentContent changes = Some newContent"
      "storageUploadFile e
         (if s3Path0 = [] then generateS3Path e userID itemID itemTypeStr else s3Path0)
         newContent contentType s2 = (None, s3)"
      "commitChanges e userID itemID itemTypeStr itemTypeStr meta currentVersion
         (if s3Path0 = [] then generateS3Path e userID itemID itemTypeStr else s3Path0)
         newContent changes s3 = (r, s')"
  using run unfolding ApplyItemChanges_def Let_def
  by (auto split: prod.splits sum.splits option.splits if_splits)

lemma updateItemMeta_panic:
  assumes "updateItemMeta e t meta v p s = (Inl err, s1)"
  shows "s1 = s \<and> err = ErrPanic"
  using assms
  by (auto simp: updateItemMeta_def split: if_splits Meta.splits prod.splits)

lemma updateItemMeta_failed:
  assumes "updateItemMeta e t meta v p s = (Inr (Some de), s1)"
  shows "(\<exists>c. newCalls s s1 = [(c, False)] \<and> isMetaUpdate c) \<and> extendsCalls s s1
         \<and> sameStores s s1 \<and> sameMetaCache s s1
         \<and> (de = DbErrVersionMismatch \<longrightarrow> \<not> f_dbUpdateMeta e)"
  using assms
  by (auto simp: updateItemMeta_def dbUpdatePostMeta_def dbUpdateCodeFileMeta_def
        record_call_def extendsCalls_def newCalls_def sameStores_def sameMetaCache_def
      split: if_splits Meta.splits prod.splits option.splits)

lemma updateItemMeta_ok:
  assumes "updateItemMeta e t meta v p s = (Inr None, s1)" and "IsValid t"
  shows "(\<exists>c. newCalls s s1 = [(c, True)] \<and> isMetaUpdate c) \<and> extendsCalls s s1
         \<and> metaOfType t meta
         \<and> storedVersion s t (metaID meta) = Some v
         \<and> storedVersion s1 t (metaID meta) = Some (v + 1)
         \<and> storedS3Path s1 t (metaID meta) = Some p
         \<and> files s1 = files s \<and> history s1 = history s
         \<and> changeCounters s1 = changeCounters s \<and> contentCache s1 = contentCache s
         \<and> sameMetaCache s s1"
  using assms(2)
proof (cases rule: IsValid_cases)
  case 1
  with assms(1) show ?thesis
    by (auto simp: updateItemMeta_def dbUpdatePostMeta_def
          record_call_def extendsCalls_def newCalls_def sameMetaCache_def
          storedVersion_def storedS3Path_def
        split: if_splits Meta.splits prod.splits option.splits)
next
  case 2
  with assms(1) show ?thesis
    by (auto simp: updateItemMeta_def dbUpdateCodeFileMeta_def
          record_call_def extendsCalls_def newCalls_def sameMetaCache_def
          storedVersion_def storedS3Path_def
        split: if_splits Meta.splits prod.splits option.splits)
qed

lemma getItemVersion_effect:
  assumes "getItemVersion e i t s = (r, s1)"
  shows "step readOnly s s1 \<and> sameStores s s1 \<and> sameMetaCache s s1
         \<and> (\<forall>lv. r = Inr lv \<longrightarrow> storedVersion s t i = Some lv \<and> \<not> f_dbGetVersion e)"
  using assms
  by (auto simp: getItemVersion_def dbGetPostMetaByID_def dbGetCodeFileMetaByID_def
        record_call_def step_def extendsCalls_def newCalls_def sameStores_def
        sameMetaCache_def readOnly_def storedVersion_def
      split: if_splits prod.splits option.splits)

lemma dbLogAction_effect:
  assumes "dbLogAction e fails l s = (r, s1)"
  shows "extendsCalls s s1 \<and> newCalls s s1 = [(DbLogAction l, \<not> fails)]
         \<and> posts s1 = posts s \<and> codefiles s1 = codefiles s \<and> files s1 = files s
         \<and> users s1 = users s \<and> userCache s1 = userCache s
         \<and> contentCache s1 = contentCache s \<and> changeCounters s1 = changeCounters s
         \<and> sameMetaCache s s1
         \<and> history s1 = (if fails then history s
                         else history s @ [l\<lparr>hl_ID := newLogID e (length (history s)),
                                hl_Timestamp := (if hl_Timestamp l = 0 then now e
                                                 else hl_Timestamp l)\<rparr>])"
  using assms
  by (auto simp: dbLogAction_def record_call_def extendsCalls_def newCalls_def
        sameMetaCache_def Let_def split: if_splits)

lemma logPatches_effect:
  "step plainCall s (logPatches e u i ts v k cs s)
   \<and> posts (logPatches e u i ts v k cs s) = posts s
   \<and> codefiles (logPatches e u i ts v k cs s) = codefiles s
   \<and> files (logPatches e u i ts v k cs s) = files s
   \<and> changeCounters (logPatches e u i ts v k cs s) = changeCounters s
   \<and> (\<exists>hs. history (logPatches e u i ts v k cs s) = history s @ hs
            \<and> list_all (\<lambda>l. hl_Action l = ActionPatch) hs)"
proof (induction cs arbitrary: s k)
  case Nil
  then show ?case by simp
next
  case (Cons c cs)
  obtain r s1 where d: "dbLogAction e (f_dbLogPatch e k) (patchLog e u i ts v c) s = (r, s1)"
    by (cases "dbLogAction e (f_dbLogPatch e k) (patchLog e u i ts v c) s") auto
  from dbLogAction_effect [OF d] have
    st: "step plainCall s s1" and
    fr: "posts s1 = posts s" "codefiles s1 = codefiles s" "files s1 = files s"
        "changeCounters s1 = changeCounters s" and
    hi: "\<exists>h1. history s1 = history s @ h1 \<and> list_all (\<lambda>l. hl_Action l = ActionPatch) h1"
    by (simp_all add: step_def plainCall_def patchLog_def)
  from hi obtain h1 where h1: "history s1 = history s @ h1"
    "list_all (\<lambda>l. hl_Action l = ActionPatch) h1" by blast
  from Cons.IH [of s1 "Suc k"] obtain h2 where
    h2: "history (logPatches e u i ts v (Suc k) cs s1) = history s1 @ h2"
    "list_all (\<lambda>l. hl_Action l = ActionPatch) h2" by blast
  from h1 h2 have "history (logPatches e u i ts v (Suc k) cs s1) = history s @ (h1 @ h2)
      \<and> list_all (\<lambda>l. hl_Action l = ActionPatch) (h1 @ h2)" by simp
  then have "\<exists>hs. history (logPatches e u i ts v (Suc k) cs s1) = history s @ hs
      \<and> list_all (\<lambda>l. hl_Action l = ActionPatch) hs" by blast
  with Cons.IH [of s1 "Suc k"] st fr d show ?case
    by (auto intro: step_trans)
qed

lemma cachePostOps_effect:
  assumes "s3 = snd (cacheSetItemContent e i t v c
                  (snd (cacheInvalidateItemContent e i t (snd (cacheDeleteItemMeta e i t s)))))"
  shows "step plainCall s s3 \<and> posts s3 = posts s \<and> codefiles s3 = codefiles s
         \<and> files s3 = files s \<and> changeCounters s3 = changeCounters s
         \<and> history s3 = history s"
  unfolding assms
  by (simp add: cacheSetItemContent_def cacheInvalidateItemContent_def cacheDeleteItemMeta_def
        record_call_def step_def extendsCalls_def newCalls_def plainCall_def)


lemma postUpdateActions_effect:
  assumes "s' = postUpdateActions e u i t ts v p nc cs s"
  shows "\<exists>s4. s' = handleSnapshotting e u i t ts v p (int (length cs)) s4
           \<and> step plainCall s s4 \<and> posts s4 = posts s \<and> codefiles s4 = codefiles s
           \<and> files s4 = files s \<and> changeCounters s4 = changeCounters s
           \<and> (\<exists>hs. history s4 = history s @ hs
                   \<and> list_all (\<lambda>l. hl_Action l = ActionPatch) hs)"
proof -
  define s3 where "s3 = snd (cacheSetItemContent e i t v nc
                  (snd (cacheInvalidateItemContent e i t (snd (cacheDeleteItemMeta e i t s)))))"
  define s4 where "s4 = logPatches e u i ts v 0 cs s3"
  have a: "s' = handleSnapshotting e u i t ts v p (int (length cs)) s4"
    by (simp add: assms postUpdateActions_def Let_def s3_def s4_def)
  from cachePostOps_effect [OF s3_def] logPatches_effect [of s3 e u i ts v 0 cs]
  have "step plainCall s s4 \<and> posts s4 = posts s \<and> codefiles s4 = codefiles s
           \<and> files s4 = files s \<and> changeCounters s4 = changeCounters s
           \<and> (\<exists>hs. history s4 = history s @ hs
                   \<and> list_all (\<lambda>l. hl_Action l = ActionPatch) hs)"
    by (auto simp: s4_def intro: step_trans)
  with a show ?thesis by blast
qed

lemma commitChanges_cases [consumes 1, case_names panic refetch_failed conflict other ok]:
  assumes run: "commitChanges e userID itemID itemType itemTypeStr meta currentVersion s3Path
                  newContent changes s = (r, s')"
  obtains
    err where "updateItemMeta e itemType meta currentVersion s3Path s = (Inl err, s')"
      "r = Inl (err, 0)"
  | s1 fetchErr where
      "updateItemMeta e itemType meta currentVersion s3Path s
         = (Inr (Some DbErrVersionMismatch), s1)"
      "getItemVersion e itemID itemType s1 = (Inl fetchErr, s')"
      "r = Inl (ErrInconsistentState, 0)"
  | s1 latestVersion where
      "updateItemMeta e itemType meta currentVersion s3Path s
         = (Inr (Some DbErrVersionMismatch), s1)"
      "getItemVersion e itemID itemType s1 = (Inr latestVersion, s')"
      "r = Inl (ErrVersionConflict, latestVersion)"
  | dbUpdateErr where
      "updateItemMeta e itemType meta currentVersion s3Path s = (Inr (Some dbUpdateErr), s')"
      "dbUpdateErr \<noteq> DbErrVersionMismatch" "r = Inl (ErrInconsistentState, 0)"
  | s1 where
      "updateItemMeta e itemType meta currentVersion s3Path s = (Inr None, s1)"
      "s' = postUpdateActions e userID itemID itemType itemTypeStr (currentVersion + 1) s3Path
              newContent changes s1"
      "r = Inr (currentVersion + 1, changes)"
  using run unfolding commitChanges_def Let_def
  by (auto split: prod.splits sum.splits option.splits if_splits)

lemma step_extends: "step P s s1 \<Longrightarrow> extendsCalls s s1"
  by (simp add: step_def)

lemma step_all: "step P s s1 \<Longrightarrow> list_all P (newCalls s s1)"
  by (simp add: step_def)

lemma sameStores_storedVersion:
  "sameStores s s1 \<Longrightarrow> storedVersion s1 t i = storedVersion s t i"
  by (simp add: sameStores_def storedVersion_def)

lemma metaCacheFill_refl [simp]: "metaCacheFill t i s s"
  by (simp add: metaCacheFill_def)

lemma load_phase:
  assumes "getItemMetaWithCache e i t s = (rm, s1)"
    and "getItemContentFromSource e i t v p s1 = (rc, s2)"
  shows "step (readOrFill t i) s s2 \<and> sameStores s s2 \<and> metaCacheFill t i s s2"
proof -
  from getItemMetaWithCache_effect [OF assms(1)] have
    a: "step (readOrFill t i) s s1" "sameStores s s1" "metaCacheFill t i s s1" by simp_all
  from getItemContentFromSource_effect [OF assms(2)] have
    b: "step readOnly s1 s2" "sameStores s1 s2" "sameMetaCache s1 s2" by simp_all
  from b(1) have "step (readOrFill t i) s1 s2"
    by (rule step_mono) (rule readOnly_readOrFill)
  with a(1) have "step (readOrFill t i) s s2" by (rule step_trans)
  moreover from a(2) b(2) have "sameStores s s2" by (rule sameStores_trans)
  moreover from a(3) b(3) have "metaCacheFill t i s s2" by (rule metaCacheFill_same)
  ultimately show ?thesis by simp
qed

text \<open>A run of \<^verbatim>\<open>ApplyItemChanges\<close> either ends before anything is committed, having only
  read (and possibly filled the metadata cache, and possibly failed to upload), or it has
  uploaded the new content and ends in the commit steps.\<close>

lemma ApplyItemChanges_shape:
  assumes run: "ApplyItemChanges e userID itemID itemTypeStr baseVersion changes s = (r, s')"
  shows "(step (readFillOrFailedUpload itemTypeStr itemID) s s' \<and> sameStores s s'
            \<and> metaCacheFill itemTypeStr itemID s s' \<and> (\<forall>y. r \<noteq> Inr y)
            \<and> (\<forall>v. r \<noteq> Inl (ErrInconsistentState, v)))
         \<or> (\<exists>meta s1 s2 s3 s3Path0 contentType s3Path newContent.
               IsValid itemTypeStr
               \<and> getItemMetaWithCache e itemID itemTypeStr s = (Inr meta, s1)
               \<and> validateForApply itemTypeStr meta userID baseVersion
                   = Inr (s3Path0, baseVersion, contentType)
               \<and> s3Path = (if s3Path0 = [] then generateS3Path e userID itemID itemTypeStr
                            else s3Path0)
               \<and> step (readOrFill itemTypeStr itemID) s s2 \<and> sameStores s s2
               \<and> metaCacheFill itemTypeStr itemID s s2
               \<and> storageUploadFile e s3Path newContent contentType s2 = (None, s3)
               \<and> commitChanges e userID itemID itemTypeStr itemTypeStr meta baseVersion
                    s3Path newContent changes s3 = (r, s'))"
  using run
proof (cases rule: ApplyItemChanges_cases)
  case invalid
  then show ?thesis by simp
next
  case (lookup_failed err)
  from getItemMetaWithCache_effect [OF lookup_failed(2)] have
    a: "step (readOrFill itemTypeStr itemID) s s'" "sameStores s s'"
       "metaCacheFill itemTypeStr itemID s s'" by simp_all
  from a(1) have "step (readFillOrFailedUpload itemTypeStr itemID) s s'"
    by (rule step_mono) (rule readOrFill_failedUpload)
  moreover from lookup_failed(2) have "err \<noteq> ErrInconsistentState"
    by (auto simp: getItemMetaWithCache_def mapDBError_def
        split: prod.splits sum.splits if_splits db_error.splits)
  ultimately show ?thesis using a lookup_failed by simp
next
  case (rejected meta rej)
  from getItemMetaWithCache_effect [OF rejected(2)] have
    a: "step (readOrFill itemTypeStr itemID) s s'" "sameStores s s'"
       "metaCacheFill itemTypeStr itemID s s'" by simp_all
  from a(1) have "step (readFillOrFailedUpload itemTypeStr itemID) s s'"
    by (rule step_mono) (rule readOrFill_failedUpload)
  moreover from rejected(3) have "fst rej \<noteq> ErrInconsistentState"
    by (auto simp: validateForApply_def split: if_splits Meta.splits)
  ultimately show ?thesis using a rejected by auto
next
  case (content_failed meta s1 s3Path0 currentVersion contentType err)
  from load_phase [OF content_failed(2) content_failed(4)] have
    a: "step (readOrFill itemTypeStr itemID) s s'" "sameStores s s'"
       "metaCacheFill itemTypeStr itemID s s'" by simp_all
  from a(1) have "step (readFillOrFailedUpload itemTypeStr itemID) s s'"
    by (rule step_mono) (rule readOrFill_failedUpload)
  then show ?thesis using a content_failed by simp
next
  case (apply_failed meta s1 s3Path0 currentVersion contentType currentContent)
  from load_phase [OF apply_failed(2) apply_failed(4)] have
    a: "step (readOrFill itemTypeStr itemID) s s'" "sameStores s s'"
       "metaCacheFill itemTypeStr itemID s s'" by simp_all
  from a(1) have "step (readFillOrFailedUpload itemTypeStr itemID) s s'"
    by (rule step_mono) (rule readOrFill_failedUpload)
  then show ?thesis using a apply_failed by simp
next
  case (upload_failed meta s1 s3Path0 currentVersion contentType currentContent s2 newContent
      uploadErr)
  from load_phase [OF upload_failed(2) upload_failed(4)] have
    a: "step (readOrFill itemTypeStr itemID) s s2" "sameStores s s2"
       "metaCacheFill itemTypeStr itemID s s2" by simp_all
  from storageUploadFile_failed [OF upload_failed(6), of itemTypeStr itemID] have
    b: "step (readFillOrFailedUpload itemTypeStr itemID) s2 s'" "sameStores s2 s'"
       "sameMetaCache s2 s'" by simp_all
  from a(1) have "step (readFillOrFailedUpload itemTypeStr itemID) s s2"
    by (rule step_mono) (rule readOrFill_failedUpload)
  with b(1) have "step (readFillOrFailedUpload itemTypeStr itemID) s s'"
    by (blast intro: step_trans)
  moreover from a(2) b(2) have "sameStores s s'" by (rule sameStores_trans)
  moreover from a(3) b(3) have "metaCacheFill itemTypeStr itemID s s'"
    by (rule metaCacheFill_same)
  ultimately show ?thesis using upload_failed by simp
next
  case (committed meta s1 s3Path0 currentVersion contentType currentContent s2 newContent s3)
  from validateForApply_Inr [OF committed(1) committed(3)]
  have v: "currentVersion = baseVersion" .
  from load_phase [OF committed(2) committed(4)] have
    a: "step (readOrFill itemTypeStr itemID) s s2" "sameStores s s2"
       "metaCacheFill itemTypeStr itemID s s2" by simp_all
  show ?thesis
    apply (rule disjI2)
    using committed a v by blast
qed

lemma casFailed_append [simp]: "casFailed (xs @ ys) = (casFailed xs \<or> casFailed ys)"
  by (simp add: casFailed_def)

lemma casFailed_noMetaUpdate: "list_all noMetaUpdate xs \<Longrightarrow> \<not> casFailed xs"
  by (auto simp: casFailed_def noMetaUpdate_def list_all_iff list_ex_iff)

lemma plainCall_noMetaUpdate: "plainCall x \<Longrightarrow> noMetaUpdate x"
  by (simp add: plainCall_def noMetaUpdate_def)

lemma readOnly_noMetaUpdate: "readOnly x \<Longrightarrow> noMetaUpdate x"
  using readOrFill_noMetaUpdate readOnly_readOrFill by blast

lemma handleSnapshotting_step:
  "step noMetaUpdate s (handleSnapshotting e u i t ts v p n s)"
  by (simp add: handleSnapshotting_def dbLogAction_def record_call_def step_def
        extendsCalls_def newCalls_def noMetaUpdate_def Let_def)

lemma postUpdateActions_step:
  "step noMetaUpdate s (postUpdateActions e u i t ts v p nc cs s)"
proof -
  from postUpdateActions_effect [OF refl, of e u i t ts v p nc cs s]
  obtain s4 where a: "postUpdateActions e u i t ts v p nc cs s
        = handleSnapshotting e u i t ts v p (int (length cs)) s4"
    and b: "step plainCall s s4" by blast
  from b have "step noMetaUpdate s s4" by (rule step_mono) (rule plainCall_noMetaUpdate)
  with handleSnapshotting_step [of s4 e u i t ts v p "int (length cs)"] a
  show ?thesis by (auto intro: step_trans)
qed

lemma commitChanges_effect:
  assumes run: "commitChanges e userID itemID itemType itemTypeStr meta currentVersion s3Path
                  newContent changes s = (r, s')"
    and valid: "IsValid itemType"
  shows "extendsCalls s s'
     \<and> (casFailed (newCalls s s') \<longrightarrow>
          r = Inl (ErrInconsistentState, 0)
          \<or> (\<exists>lv. r = Inl (ErrVersionConflict, lv)
                 \<and> storedVersion s' itemType itemID = Some lv
                 \<and> \<not> f_dbGetVersion e \<and> \<not> f_dbUpdateMeta e))
     \<and> r \<noteq> Inl (ErrApplyChange, 0) \<and> (\<forall>msg. r \<noteq> Inl (ErrOther msg, 0))"
  using run
proof (cases rule: commitChanges_cases)
  case (panic err)
  with updateItemMeta_panic [OF panic(1)] show ?thesis
    by (simp add: casFailed_def)
next
  case (refetch_failed s1 fetchErr)
  from updateItemMeta_failed [OF refetch_failed(1)] have a: "extendsCalls s s1" by simp
  from getItemVersion_effect [OF refetch_failed(2)] have b: "extendsCalls s1 s'"
    by (simp add: step_def)
  from newCalls_trans [OF a b] refetch_failed(3) show ?thesis by simp
next
  case (conflict s1 latestVersion)
  from updateItemMeta_failed [OF conflict(1)] have a: "extendsCalls s s1"
    and a': "\<not> f_dbUpdateMeta e" by simp_all
  from getItemVersion_effect [OF conflict(2)] have b: "extendsCalls s1 s'"
    and c: "sameStores s1 s'" and d: "storedVersion s1 itemType itemID = Some latestVersion"
    and d': "\<not> f_dbGetVersion e"
    by (simp_all add: step_def)
  from sameStores_storedVersion [OF c, of itemType itemID] d
  have "storedVersion s' itemType itemID = Some latestVersion" by simp
  with newCalls_trans [OF a b] conflict(3) a' d' show ?thesis by simp
next
  case (other dbUpdateErr)
  from updateItemMeta_failed [OF other(1)] other(3) show ?thesis by simp
next
  case (ok s1)
  from updateItemMeta_ok [OF ok(1) valid] obtain c where
    a: "extendsCalls s s1" and a': "newCalls s s1 = [(c, True)]" by blast
  from postUpdateActions_step [of s1 e userID itemID itemType itemTypeStr "currentVersion + 1"
      s3Path newContent changes] ok(2)
  have b: "step noMetaUpdate s1 s'" by simp
  from newCalls_trans [OF a step_extends [OF b]] a' casFailed_noMetaUpdate [OF step_all [OF b]]
    ok(3)
  show ?thesis by (simp add: casFailed_def)
qed







lemma snapshotCalls_Nil [simp]: "snapshotCalls [] = []"
  by (simp add: snapshotCalls_def)

lemma snapshotCalls_append [simp]:
  "snapshotCalls (xs @ ys) = snapshotCalls xs @ snapshotCalls ys"
  by (simp add: snapshotCalls_def)








section \<open>ApplyItemChanges: the version reported with a conflict at the load step\<close>

text \<open>
  C2. The claim is that the version returned beside \<^verbatim>\<open>ErrVersionConflict\<close> is the version the
  metadata store holds. At the load step the service returns the version field of the
  metadata \<^verbatim>\<open>getItemMetaWithCache\<close> gave it, and a cache hit gives the cached copy, whose
  version field the JSON encoding has dropped. Here alice reads her post (stored version 1)
  and then applies a change based on version 1: the call fails with a conflict and reports
  version 0, while the store still holds version 1.
\<close>

theorem cached_version_reported_as_current:
  "fst (ApplyItemChanges env0 ''alice'' ''p1'' ''post'' 1 [ch0] stCached)
     = Inl (ErrVersionConflict, 0)
   \<and> storedVersion stCached ''post'' ''p1'' = Some 1
   \<and> fst (GetItemContent env0 ''alice'' ''p1'' ''post'' st0) = Inr (''abc'', 1)"
  by (simp add: stCached_def GetItemContent_def ownedFields_def apply_defs store_defs type_defs
        fixture_defs obs_defs Let_def)

section \<open>DeleteItem on an item without metadata\<close>




section \<open>RegisterUser and LoginUser: the password hash\<close>

text \<open>
  C10. The user record a successful \<^verbatim>\<open>RegisterUser\<close> or \<^verbatim>\<open>LoginUser\<close> returns has an empty
  \<^verbatim>\<open>PasswordHash\<close>. \<^verbatim>\<open>RegisterUser\<close> does not write the user cache. The only user record
  \<^verbatim>\<open>LoginUser\<close> passes to the cache is the one it returns, and every cache entry that was not
  there before the login has an empty \<^verbatim>\<open>PasswordHash\<close>.
\<close>

theorem password_hash_cleared:
  "(RegisterUser e username password s = (Inr user, s')
      \<longrightarrow> u_PasswordHash user = [] \<and> userCache s' = userCache s)
   \<and> (LoginUser e username password s = (Inr (token, user), s')
      \<longrightarrow> u_PasswordHash user = []
          \<and> (\<forall>u ok. (CacheSetUser u, ok) \<in> set (newCalls s s') \<longrightarrow> u = user)
          \<and> (\<forall>k u. userCache s' k = Some u
                 \<longrightarrow> userCache s k = Some u \<or> u_PasswordHash u = []))"
  by (auto simp: RegisterUser_def LoginUser_def store_defs obs_defs Let_def
           split: option.splits prod.splits sum.splits if_splits db_error.splits)

theorem password_hash_cleared_witness:
  "fst (RegisterUser env0 ''alice'' ''secret'' st0) = Inr aliceUser
   \<and> fst (LoginUser env0 ''alice'' ''secret'' stRegistered) = Inr (''jwt:alice'', aliceUser)
   \<and> u_PasswordHash aliceUser = []"
proof -
  have r1: "fst (RegisterUser env0 ''alice'' ''secret'' st0) = Inr aliceUser"
    by (simp add: RegisterUser_def store_defs fixture_defs aliceUser_def Let_def)
  then have run1: "RegisterUser env0 ''alice'' ''secret'' st0 = (Inr aliceUser, stRegistered)"
    by (simp add: prod_eq_iff stRegistered_def)
  have r2: "fst (LoginUser env0 ''alice'' ''secret'' stRegistered)
              = Inr (''jwt:alice'', aliceUser)"
    by (simp add: stRegistered_def LoginUser_def RegisterUser_def store_defs fixture_defs
          aliceUser_def Let_def)
  then have run2: "LoginUser env0 ''alice'' ''secret'' stRegistered
      = (Inr (''jwt:alice'', aliceUser), snd (LoginUser env0 ''alice'' ''secret'' stRegistered))"
    by (simp add: prod_eq_iff)
  have h1: "u_PasswordHash aliceUser = []"
    using password_hash_cleared [where e = env0 and username = "''alice''"
        and password = "''secret''" and s = st0 and user = aliceUser and s' = stRegistered]
      run1 by blast
  have h2: "u_PasswordHash aliceUser = []"
    using password_hash_cleared [where e = env0 and username = "''alice''"
        and password = "''secret''" and s = stRegistered and user = aliceUser
        and token = "''jwt:alice''"
        and s' = "snd (LoginUser env0 ''alice'' ''secret'' stRegistered)"]
      run2 by blast
  from r1 r2 h1 h2 show ?thesis by blast
qed

section \<open>ApplyItemChanges: a metadata update that does not go through\<close>




section \<open>ApplyItemChanges: blob before metadata, and what a failed apply or upload leaves\<close>

text \<open>
  C4 (as claimed, refuted). The claim has no cache mutation when the change applier fails.
  The metadata lookup at the start of the call is read-through: on a cache miss it stores
  what the database returned. Here the applier fails, and the metadata cache, empty before
  the call, holds the post afterwards.
\<close>

theorem ApplyItemChanges_cache_fill_counterexample:
  "fst (ApplyItemChanges envNoApply ''alice'' ''p1'' ''post'' 1 [ch0] st0)
     = Inl (ErrApplyChange, 0)
   \<and> postCache st0 ''p1'' = None
   \<and> postCache (snd (ApplyItemChanges envNoApply ''alice'' ''p1'' ''post'' 1 [ch0] st0)) ''p1''
       = Some (jsonPost post1)
   \<and> newCalls st0 (snd (ApplyItemChanges envNoApply ''alice'' ''p1'' ''post'' 1 [ch0] st0))
     = [(CacheGetItemMeta ''p1'' ''post'', False),
        (DbGetPostMetaByID ''p1'', True),
        (CacheSetItemMeta ''p1'' ''post'' (PostMeta post1), True),
        (CacheGetItemContent ''p1'' ''post'' 1, False),
        (StorageDownloadFile ''post/alice/p1'', True)]"
  by (simp add: apply_defs store_defs type_defs fixture_defs obs_defs Let_def)

text \<open>
  C4 (amended). In every run of \<^verbatim>\<open>ApplyItemChanges\<close>, each metadata update among the calls
  comes after an upload that succeeded. If the change applier fails or the upload fails,
  the metadata store, the blob store, the history, the content cache, the user stores and
  the snapshot counters are unchanged; the metadata cache is unchanged or has been filled
  for this item with what the store holds; and no call that writes has been issued other
  than that cache fill and the upload that failed.
\<close>

theorem ApplyItemChanges_blob_before_metadata:
  assumes run: "ApplyItemChanges e userID itemID itemTypeStr baseVersion changes s = (r, s')"
  shows "casAfterUpload False (newCalls s s')
     \<and> (r = Inl (ErrApplyChange, 0)
          \<or> r = Inl (ErrOther ''failed to save updated content to storage'', 0)
        \<longrightarrow> sameStores s s' \<and> metaCacheFill itemTypeStr itemID s s'
            \<and> list_all (readFillOrFailedUpload itemTypeStr itemID) (newCalls s s'))"
proof -
  from ApplyItemChanges_shape [OF run] show ?thesis
  proof (elim disjE conjE exE)
    assume a: "step (readFillOrFailedUpload itemTypeStr itemID) s s'"
      and b: "sameStores s s'" "metaCacheFill itemTypeStr itemID s s'"
    from a have "step noMetaUpdate s s'"
      by (rule step_mono) (rule readFillOrFailedUpload_noMetaUpdate)
    from casAfterUpload_noMetaUpdate [OF step_all [OF this]] a b show ?thesis
      by (simp add: step_def)
  next
    fix meta s1 s2 s3 s3Path0 contentType s3Path newContent
    assume valid: "IsValid itemTypeStr"
      and pre: "step (readOrFill itemTypeStr itemID) s s2"
      and up: "storageUploadFile e s3Path newContent contentType s2 = (None, s3)"
      and commit: "commitChanges e userID itemID itemTypeStr itemTypeStr meta baseVersion
                     s3Path newContent changes s3 = (r, s')"
    from pre have "step noMetaUpdate s s2"
      by (rule step_mono) (rule readOrFill_noMetaUpdate)
    then have p1: "list_all noMetaUpdate (newCalls s s2)" by (rule step_all)
    from storageUploadFile_ok [OF up] have
      u: "extendsCalls s2 s3"
         "newCalls s2 s3 = [(StorageUploadFile s3Path newContent contentType, True)]"
      by simp_all
    from commitChanges_effect [OF commit valid] have c: "extendsCalls s3 s'"
      and res: "r \<noteq> Inl (ErrApplyChange, 0)"
               "r \<noteq> Inl (ErrOther ''failed to save updated content to storage'', 0)"
      by simp_all
    from newCalls_trans [OF step_extends [OF pre] u(1)] have
      e1: "extendsCalls s s3" "newCalls s s3 = newCalls s s2 @ newCalls s2 s3" by simp_all
    from newCalls_trans [OF e1(1) c] e1(2) u(2) have
      "newCalls s s' = newCalls s s2
         @ (StorageUploadFile s3Path newContent contentType, True) # newCalls s3 s'" by simp
    with casAfterUpload_after [OF p1, of "StorageUploadFile s3Path newContent contentType"
        False "newCalls s3 s'"]
    have "casAfterUpload False (newCalls s s')" by simp
    with res show ?thesis by simp
  qed
qed

theorem ApplyItemChanges_blob_before_metadata_witness:
  "fst (ApplyItemChanges envNoApply ''alice'' ''p1'' ''post'' 1 [ch0] st0)
     = Inl (ErrApplyChange, 0)
   \<and> sameStores st0 (snd (ApplyItemChanges envNoApply ''alice'' ''p1'' ''post'' 1 [ch0] st0))"
proof -
  define s' where "s' = snd (ApplyItemChanges envNoApply ''alice'' ''p1'' ''post'' 1 [ch0] st0)"
  have r: "fst (ApplyItemChanges envNoApply ''alice'' ''p1'' ''post'' 1 [ch0] st0)
             = Inl (ErrApplyChange, 0)"
    by (simp add: apply_defs store_defs type_defs fixture_defs Let_def)
  then have run: "ApplyItemChanges envNoApply ''alice'' ''p1'' ''post'' 1 [ch0] st0
                    = (Inl (ErrApplyChange, 0), s')"
    by (simp add: prod_eq_iff s'_def)
  from ApplyItemChanges_blob_before_metadata [OF run] have "sameStores st0 s'" by blast
  with r show ?thesis by (simp add: s'_def)
qed

section \<open>Snapshots\<close>



end
